theory Spec2Isabelle
  imports Main
begin

section \<open>Python values and string primitives\<close>

text \<open>
  Exceptions of the Python sources are values.  Every \<^verbatim>\<open>raise ValueError(msg)\<close> of the
  sources is \<open>ValueError msg\<close>; \<open>TimeoutError\<close> is what \<^verbatim>\<open>asyncio.wait_for\<close> raises when
  its timeout elapses; \<open>AttributeError\<close> is an attribute access on \<^verbatim>\<open>None\<close>;
  \<open>TypeError\<close> is a builtin applied to a value of the wrong type; \<open>OtherError\<close> stands
  for any other exception an external collaborator raises.
\<close>

datatype error =
    ValueError string
  | TimeoutError
  | AttributeError
  | TypeError
  | OtherError string

text \<open>
  \<^verbatim>\<open>s.split(sep, maxsplit)\<close> for a one-character separator: \<open>split_n n c s\<close> cuts \<open>s\<close> at
  the first \<open>n\<close> occurrences of \<open>c\<close>.  \<^verbatim>\<open>s.split(sep)\<close> cuts at every occurrence.
\<close>

fun split_n :: "nat \<Rightarrow> char \<Rightarrow> string \<Rightarrow> string list" where
  "split_n n c [] = [[]]"
| "split_n 0 c s = [s]"
| "split_n (Suc n) c (x # xs) =
     (if x = c then [] # split_n n c xs
      else (case split_n (Suc n) c xs of
              [] \<Rightarrow> [[x]]
            | p # ps \<Rightarrow> (x # p) # ps))"

definition py_split :: "char \<Rightarrow> string \<Rightarrow> string list" where
  "py_split c s = split_n (length s) c s"

text \<open>\<^verbatim>\<open>s.startswith(p)\<close>.\<close>

definition startswith :: "string \<Rightarrow> string \<Rightarrow> bool" where
  "startswith s p = (take (length p) s = p)"

text \<open>
  \<^verbatim>\<open>s.replace(old, "")\<close>: every non-overlapping occurrence of \<open>old\<close>, found from the
  left, is removed.  With an empty \<open>old\<close> and an empty replacement Python returns \<open>s\<close>.
\<close>

function py_remove :: "string \<Rightarrow> string \<Rightarrow> string" where
  "py_remove old s =
     (if old = [] then s
      else if s = [] then []
      else if startswith s old then py_remove old (drop (length old) s)
      else hd s # py_remove old (tl s))"
  by pat_completeness auto
termination
  by (relation "measure (\<lambda>(old, s). length s)") (auto simp: startswith_def)

text \<open>\<^verbatim>\<open>str(n)\<close> for an integer: decimal digits, with a leading minus sign when negative.\<close>

definition digit_char :: "nat \<Rightarrow> char" where
  "digit_char d = ''0123456789'' ! d"

fun str_nat :: "nat \<Rightarrow> string" where
  "str_nat n = (if n < 10 then [digit_char n] else str_nat (n div 10) @ [digit_char (n mod 10)])"

definition str_int :: "int \<Rightarrow> string" where
  "str_int i = (if i < 0 then CHR ''-'' # str_nat (nat (- i)) else str_nat (nat i))"

text \<open>
  The number a string of decimal digits denotes.  It is not part of the sources: it serves
  to show that \<open>str_int\<close> loses nothing.
\<close>

definition digits_value :: "string \<Rightarrow> nat" where
  "digits_value s = foldl (\<lambda>a ch. 10 * a + (of_char ch - 48)) 0 s"

text \<open>The recursive equations are unfolded by hand, never by the simplifier.\<close>

declare str_nat.simps [simp del]

declare py_remove.simps [simp del]

section \<open>The session router (\<^verbatim>\<open>src/servers/remote.py\<close>)\<close>

text \<open>
  Python objects have an identity: two transports (or two server instances) built by two
  calls are different objects even when their fields agree.  The model allocates a fresh
  reference (a natural number) for every object the router creates; \<open>allocated\<close> counts
  them.  A transport carries its reference and the endpoint string it was built with.
\<close>

record transport =
  t_ref :: nat
  t_endpoint :: string

text \<open>
  The frame of one running \<^verbatim>\<open>handle_sse\<close> coroutine while it is suspended in
  \<^verbatim>\<open>connect_sse\<close> / \<^verbatim>\<open>server_instance.run\<close>: its local variables \<^verbatim>\<open>session_key\<close>,
  \<^verbatim>\<open>sse_transport\<close> and \<^verbatim>\<open>server_instance\<close> (a reference into \<open>objects\<close>).
\<close>

record connection =
  c_session_key :: string
  c_transport :: transport
  c_instance :: nat

text \<open>
  The module state of \<^verbatim>\<open>remote.py\<close>: the two dictionaries \<^verbatim>\<open>user_session_transports\<close>
  and \<^verbatim>\<open>user_server_instances\<close> (the latter holds references to server objects, stored
  in \<open>objects\<close>).  \<open>factory_calls\<close> is a log, kept by the model only, of the session key of
  every invocation of \<^verbatim>\<open>server_factory\<close>; \<open>open_connections\<close> are the frames of the
  \<^verbatim>\<open>handle_sse\<close> coroutines that are currently streaming.
\<close>

record 'i app =
  user_session_transports :: "string \<rightharpoonup> transport"
  user_server_instances :: "string \<rightharpoonup> nat"
  objects :: "nat \<rightharpoonup> 'i"
  allocated :: nat
  factory_calls :: "string list"
  open_connections :: "connection list"

definition init_app :: "'i app" where
  "init_app = \<lparr> user_session_transports = Map.empty, user_server_instances = Map.empty,
                 objects = Map.empty, allocated = 0, factory_calls = [],
                 open_connections = [] \<rparr>"

text \<open>\<^verbatim>\<open>session_key = f"{server_name}:{session_key_encoded}"\<close> (lines 91 and 158).\<close>

definition session_key :: "string \<Rightarrow> string \<Rightarrow> string" where
  "session_key server_name session_key_encoded = server_name @ '':'' @ session_key_encoded"

text \<open>
  Lines 93--100: \<^verbatim>\<open>user_id\<close> and \<^verbatim>\<open>api_key\<close> are the first two \<^verbatim>\<open>":"\<close>-separated parts of
  the encoded key when it holds a colon; otherwise the whole string is the user and the
  API key stays \<^verbatim>\<open>None\<close>.
\<close>

definition parse_session :: "string \<Rightarrow> string \<times> string option" where
  "parse_session enc =
     (if CHR '':'' \<in> set enc
      then (py_split CHR '':'' enc ! 0, Some (py_split CHR '':'' enc ! 1))
      else (enc, None))"

text \<open>
  \<^verbatim>\<open>handle_sse\<close>, lines 88--121: from the start of the handler to the point where it
  enters \<^verbatim>\<open>connect_sse\<close>.  This stretch holds no \<^verbatim>\<open>await\<close>, and \<^verbatim>\<open>server_factory\<close> is called
  as a plain function, so under the cooperative scheduling of the event loop it runs as
  one atomic step.  The transport is stored first (line 110); then the instance is looked
  up and, when absent, built by \<open>server_factory\<close> and stored (lines 114--118).  When the
  factory raises, the exception leaves the handler before its \<^verbatim>\<open>try\<close> block: the transport
  stored on line 110 stays.
\<close>

definition sse_open ::
  "(string \<Rightarrow> string option \<Rightarrow> error + 'i) \<Rightarrow> string \<Rightarrow> string \<Rightarrow> 'i app
     \<Rightarrow> (error + connection) \<times> 'i app" where
  "sse_open server_factory server_name enc s =
     (let key = session_key server_name enc;
          user_id = fst (parse_session enc);
          api_key = snd (parse_session enc);
          sse_transport = \<lparr> t_ref = allocated s,
                            t_endpoint = ''/'' @ server_name @ ''/'' @ enc @ ''/messages/'' \<rparr>;
          s1 = s \<lparr> user_session_transports := (user_session_transports s)(key \<mapsto> sse_transport),
                   allocated := Suc (allocated s) \<rparr>
      in case user_server_instances s1 key of
           None \<Rightarrow>
             (case server_factory user_id api_key of
                Inl e \<Rightarrow> (Inl e, s1 \<lparr> factory_calls := factory_calls s1 @ [key] \<rparr>)
              | Inr server_instance \<Rightarrow>
                  (let r = allocated s1;
                       c = \<lparr> c_session_key = key, c_transport = sse_transport, c_instance = r \<rparr>
                   in (Inr c,
                       s1 \<lparr> user_server_instances := (user_server_instances s1)(key \<mapsto> r),
                            objects := (objects s1)(r \<mapsto> server_instance),
                            allocated := Suc r,
                            factory_calls := factory_calls s1 @ [key],
                            open_connections := open_connections s1 @ [c] \<rparr>)))
         | Some r \<Rightarrow>
             (let c = \<lparr> c_session_key = key, c_transport = sse_transport, c_instance = r \<rparr>
              in (Inr c, s1 \<lparr> open_connections := open_connections s1 @ [c] \<rparr>)))"

text \<open>
  \<^verbatim>\<open>handle_sse\<close>, lines 135--141: the \<^verbatim>\<open>finally\<close> block that runs when the connection of
  frame \<open>c\<close> ends.  It deletes whatever transport is stored under the frame's session key;
  \<^verbatim>\<open>user_server_instances\<close> is not touched.
\<close>

definition sse_close :: "'i app \<Rightarrow> connection \<Rightarrow> 'i app" where
  "sse_close s c =
     s \<lparr> user_session_transports :=
            (if user_session_transports s (c_session_key c) \<noteq> None
             then (user_session_transports s)((c_session_key c) := None)
             else user_session_transports s),
         open_connections := remove1 c (open_connections s) \<rparr>"

text \<open>
  \<^verbatim>\<open>handle_message\<close>, lines 155--166: the messages endpoint.  An unknown session key gets
  a response with status 404; otherwise the handler returns the stored transport's
  \<^verbatim>\<open>handle_post_message\<close>.
\<close>

datatype response =
    Response string nat
  | PostMessageHandler transport

definition handle_message :: "string \<Rightarrow> string \<Rightarrow> 'i app \<Rightarrow> response" where
  "handle_message server_name enc s =
     (let key = session_key server_name enc
      in case user_session_transports s key of
           None \<Rightarrow> Response (''Session not found or expired for session '' @ key) 404
         | Some transport \<Rightarrow> PostMessageHandler transport)"

text \<open>
  The event loop interleaves the atomic steps of the handlers in any order.  An event is a
  new connection request, the end of the \<open>i\<close>-th streaming connection, or a POST to the
  messages endpoint; \<open>run\<close> executes a schedule of events and collects what each step
  returned.
\<close>

datatype event =
    Connect string string
  | Disconnect nat
  | Post string string

datatype outcome =
    Opened connection
  | Failed error
  | Closed
  | Skipped
  | Replied response

definition step ::
  "(string \<Rightarrow> string option \<Rightarrow> error + 'i) \<Rightarrow> event \<Rightarrow> 'i app \<Rightarrow> outcome \<times> 'i app" where
  "step server_factory ev s =
     (case ev of
        Connect server_name enc \<Rightarrow>
          (case sse_open server_factory server_name enc s of
             (Inl e, s') \<Rightarrow> (Failed e, s')
           | (Inr c, s') \<Rightarrow> (Opened c, s'))
      | Disconnect i \<Rightarrow>
          (if i < length (open_connections s)
           then (Closed, sse_close s (open_connections s ! i))
           else (Skipped, s))
      | Post server_name enc \<Rightarrow> (Replied (handle_message server_name enc s), s))"

fun run ::
  "(string \<Rightarrow> string option \<Rightarrow> error + 'i) \<Rightarrow> event list \<Rightarrow> 'i app \<Rightarrow> outcome list \<times> 'i app" where
  "run server_factory [] s = ([], s)"
| "run server_factory (ev # evs) s =
     (case step server_factory ev s of
        (out, s') \<Rightarrow> (case run server_factory evs s' of (outs, s'') \<Rightarrow> (out # outs, s'')))"

text \<open>The session key an event asks a connection for, if it is a connection request.\<close>

fun connects_to :: "string \<Rightarrow> event \<Rightarrow> bool" where
  "connects_to k (Connect server_name enc) = (session_key server_name enc = k)"
| "connects_to k (Disconnect i) = False"
| "connects_to k (Post server_name enc) = False"

text \<open>The connections for key \<open>k\<close> among the outcomes of a schedule.\<close>

fun opened_for :: "string \<Rightarrow> outcome list \<Rightarrow> connection list" where
  "opened_for k [] = []"
| "opened_for k (Opened c # outs) =
     (if c_session_key c = k then c # opened_for k outs else opened_for k outs)"
| "opened_for k (out # outs) = opened_for k outs"

section \<open>The Discord adapter (\<^verbatim>\<open>src/servers/discord/main.py\<close>)\<close>

subsection \<open>Values of tool arguments\<close>

text \<open>
  Tool arguments arrive as a JSON object: a Python \<^verbatim>\<open>dict\<close> (an association list here;
  \<open>map_of\<close> looks a key up) or \<^verbatim>\<open>None\<close>.  Floating-point numbers are kept abstract:
  the adapter only ever passes them to the builtin \<^verbatim>\<open>int\<close>.
\<close>

typedecl pyfloat

datatype pyval =
    PNone
  | PBool bool
  | PInt int
  | PFloat pyfloat
  | PStr string
  | PList "pyval list"
  | PDict "(string \<times> pyval) list"

text \<open>
  The builtin \<^verbatim>\<open>int(v)\<close>.  On an integer it is the identity and on a boolean it is 0 or
  1; \<^verbatim>\<open>None\<close>, lists and dictionaries raise \<^verbatim>\<open>TypeError\<close>.  What it does on a string
  (parse or \<^verbatim>\<open>ValueError\<close>) and on a float (truncate, or raise on infinities and NaN) is
  the interpreter's business and is taken as a parameter.
\<close>

record builtins =
  int_of_str :: "string \<Rightarrow> error + int"
  int_of_float :: "pyfloat \<Rightarrow> error + int"

definition py_int :: "builtins \<Rightarrow> pyval \<Rightarrow> error + int" where
  "py_int B v =
     (case v of
        PInt i \<Rightarrow> Inr i
      | PBool b \<Rightarrow> Inr (if b then 1 else 0)
      | PStr s \<Rightarrow> int_of_str B s
      | PFloat f \<Rightarrow> int_of_float B f
      | PNone \<Rightarrow> Inl TypeError
      | PList xs \<Rightarrow> Inl TypeError
      | PDict d \<Rightarrow> Inl TypeError)"

text \<open>\<^verbatim>\<open>d.get(k, default)\<close> and \<^verbatim>\<open>d[k]\<close> (the latter only used after \<^verbatim>\<open>k in d\<close> was checked).\<close>

definition dict_get :: "(string \<times> pyval) list \<Rightarrow> string \<Rightarrow> pyval \<Rightarrow> pyval" where
  "dict_get d k dflt = (case map_of d k of None \<Rightarrow> dflt | Some v \<Rightarrow> v)"

definition arg :: "(string \<times> pyval) list option \<Rightarrow> string \<Rightarrow> pyval" where
  "arg arguments k = the (map_of (the arguments) k)"

text \<open>
  The guard that opens every branch of \<^verbatim>\<open>handle_call_tool\<close>:
  \<^verbatim>\<open>not arguments or "k1" not in arguments or "k2" not in arguments ...\<close>.
\<close>

definition lacks :: "(string \<times> pyval) list option \<Rightarrow> string list \<Rightarrow> bool" where
  "lacks arguments ks =
     (case arguments of
        None \<Rightarrow> True
      | Some d \<Rightarrow> d = [] \<or> list_ex (\<lambda>k. map_of d k = None) ks)"

subsection \<open>Credentials, the global bot and the background task\<close>

text \<open>
  The external collaborators.  \<open>get_user_credentials api_key service user\<close> is the
  credential store behind \<^verbatim>\<open>create_auth_client(api_key=...)\<close>: the stored dictionary or
  \<^verbatim>\<open>None\<close>.  \<open>ready_delay token\<close> is the number of time units between \<^verbatim>\<open>bot.start(token)\<close>
  and the \<^verbatim>\<open>on_ready\<close> callback, or \<open>None\<close> when the login never completes.  \<open>guilds\<close> is
  what \<^verbatim>\<open>bot.guilds\<close> enumerates.
\<close>

record channel =
  channel_id :: int
  channel_name :: string

record guild =
  guild_id :: int
  guild_name :: string
  text_channels :: "channel list"

record env =
  get_user_credentials :: "string option \<Rightarrow> string \<Rightarrow> string \<Rightarrow> (string \<times> string) list option"
  ready_delay :: "string \<Rightarrow> nat option"
  guilds :: "guild list"

definition SERVICE_NAME :: string where
  "SERVICE_NAME = ''discord''"

text \<open>
  \<^verbatim>\<open>get_credentials\<close>, lines 73--99: the \<^verbatim>\<open>token\<close> entry, else the \<^verbatim>\<open>access_token\<close> entry,
  of the stored credentials; \<^verbatim>\<open>ValueError\<close> when there are no credentials or neither entry
  is a non-empty string.
\<close>

definition get_credentials :: "env \<Rightarrow> string \<Rightarrow> string option \<Rightarrow> error + string" where
  "get_credentials env uid akey =
     (let missing = Inl (ValueError (''Credentials not found for user '' @ uid))
      in case get_user_credentials env akey SERVICE_NAME uid of
           None \<Rightarrow> missing
         | Some credentials_data \<Rightarrow>
             if credentials_data = [] then missing
             else (case map_of credentials_data ''token'' of
                     Some (c # cs) \<Rightarrow> Inr (c # cs)
                   | _ \<Rightarrow>
                     (case map_of credentials_data ''access_token'' of
                        Some (c # cs) \<Rightarrow> Inr (c # cs)
                      | _ \<Rightarrow> missing)))"

text \<open>
  The module's globals: the process-wide variable \<^verbatim>\<open>bot\<close> of line 39 (a reference to the
  one \<^verbatim>\<open>commands.Bot\<close> object, or \<^verbatim>\<open>None\<close>), and the number of \<^verbatim>\<open>commands.Bot\<close> objects that
  \<^verbatim>\<open>create_discord_bot\<close> has constructed (the next fresh reference).
\<close>

record discord_module =
  global_bot :: "nat option"
  bots_created :: nat

definition init_module :: discord_module where
  "init_module = \<lparr> global_bot = None, bots_created = 0 \<rparr>"

text \<open>
  \<^verbatim>\<open>create_discord_bot\<close>, lines 102--113: the global bot when there is one, whoever asks;
  otherwise the credentials are resolved and a new bot becomes the global one.
\<close>

definition create_discord_bot ::
  "env \<Rightarrow> string \<Rightarrow> string option \<Rightarrow> discord_module \<Rightarrow> (error + nat) \<times> discord_module" where
  "create_discord_bot env uid akey g =
     (case global_bot g of
        Some b \<Rightarrow> (Inr b, g)
      | None \<Rightarrow>
          (case get_credentials env uid akey of
             Inl e \<Rightarrow> (Inl e, g)
           | Inr token \<Rightarrow>
               (Inr (bots_created g),
                g \<lparr> global_bot := Some (bots_created g),
                    bots_created := Suc (bots_created g) \<rparr>)))"

text \<open>
  The background task of \<^verbatim>\<open>start_bot_background\<close>: its local variable \<^verbatim>\<open>bot\<close> (the handle
  \<^verbatim>\<open>create_discord_bot\<close> returned, if it returned) and the exception that ended it, if
  any.  Nobody awaits the task, so that exception is only logged.
\<close>

record task =
  task_bot :: "nat option"
  task_error :: "error option"

text \<open>
  A server instance as \<^verbatim>\<open>create_server\<close> builds it (lines 116--123).  \<open>bot_ready\<close> is the
  \<^verbatim>\<open>asyncio.Event\<close>: \<open>Some r\<close> when the \<^verbatim>\<open>on_ready\<close> callback registered by the bot task
  sets it at instant \<open>r\<close>, \<open>None\<close> while nothing will set it.
\<close>

record server =
  user_id :: string
  api_key :: "string option"
  bot_task :: "task option"
  bot_ready :: "nat option"

definition create_server :: "string \<Rightarrow> string option \<Rightarrow> server" where
  "create_server uid akey =
     \<lparr> user_id = uid, api_key = akey, bot_task = None, bot_ready = None \<rparr>"

text \<open>
  The module attribute \<^verbatim>\<open>server = create_server\<close> (line 848) is the \<^verbatim>\<open>server_factory\<close> the
  router calls; it never raises.
\<close>

definition discord_server :: "string \<Rightarrow> string option \<Rightarrow> error + server" where
  "discord_server uid akey = Inr (create_server uid akey)"

text \<open>
  \<^verbatim>\<open>start_bot_background\<close>, lines 125--138, started at instant \<open>now\<close>: the task's final
  record, and the instant at which its \<^verbatim>\<open>on_ready\<close> callback will set \<^verbatim>\<open>server.bot_ready\<close>.
\<close>

definition start_bot_background ::
  "env \<Rightarrow> nat \<Rightarrow> server \<Rightarrow> discord_module \<Rightarrow> (task \<times> nat option) \<times> discord_module" where
  "start_bot_background env now srv g =
     (case create_discord_bot env (user_id srv) (api_key srv) g of
        (Inl e, g') \<Rightarrow> ((\<lparr> task_bot = None, task_error = Some e \<rparr>, None), g')
      | (Inr b, g') \<Rightarrow>
          (case get_credentials env (user_id srv) (api_key srv) of
             Inl e \<Rightarrow> ((\<lparr> task_bot = Some b, task_error = Some e \<rparr>, None), g')
           | Inr token \<Rightarrow>
               ((\<lparr> task_bot = Some b, task_error = None \<rparr>,
                 map_option (\<lambda>d. now + d) (ready_delay env token)), g')))"

text \<open>
  The three lines that open \<^verbatim>\<open>handle_list_resources\<close> (147--149), \<^verbatim>\<open>handle_read_resource\<close>
  (171--173) and \<^verbatim>\<open>handle_call_tool\<close> (422--424), for an operation issued at instant
  \<open>now\<close>:

  \<^verbatim>\<open>if server.bot_task is None:\<close>
  \<^verbatim>\<open>    server.bot_task = asyncio.create_task(start_bot_background())\<close>
  \<^verbatim>\<open>    await asyncio.wait_for(server.bot_ready.wait(), timeout=30)\<close>

  The result is the instant at which the handler goes on, or \<open>TimeoutError\<close> raised 30
  units after \<open>now\<close>.  The wait stands inside the \<^verbatim>\<open>if\<close>: an operation that finds a task
  goes on at once.
\<close>

definition await_bot_ready ::
  "env \<Rightarrow> nat \<Rightarrow> server \<times> discord_module
     \<Rightarrow> ((error + unit) \<times> nat) \<times> (server \<times> discord_module)" where
  "await_bot_ready env now sg =
     (case sg of (srv, g) \<Rightarrow>
        (case bot_task srv of
           None \<Rightarrow>
             (case start_bot_background env now srv g of
                ((tk, rdy), g') \<Rightarrow>
                  (let srv' = srv \<lparr> bot_task := Some tk, bot_ready := rdy \<rparr>
                   in case rdy of
                        None \<Rightarrow> ((Inl TimeoutError, now + 30), (srv', g'))
                      | Some r \<Rightarrow>
                          if r < now + 30 then ((Inr (), r), (srv', g'))
                          else ((Inl TimeoutError, now + 30), (srv', g'))))
         | Some tk \<Rightarrow> ((Inr (), now), (srv, g))))"

subsection \<open>Resources\<close>

record resource =
  uri :: string
  mime_type :: string
  res_name :: string

text \<open>Line 158: \<^verbatim>\<open>f"discord:///{guild.id}/{channel.id}"\<close>.\<close>

definition resource_uri :: "int \<Rightarrow> int \<Rightarrow> string" where
  "resource_uri gid cid = ''discord:///'' @ str_int gid @ ''/'' @ str_int cid"

text \<open>
  \<^verbatim>\<open>handle_list_resources\<close>, lines 141--164.  With no global bot, \<^verbatim>\<open>bot.guilds\<close> is an
  attribute access on \<^verbatim>\<open>None\<close>.
\<close>

definition handle_list_resources ::
  "env \<Rightarrow> nat \<Rightarrow> server \<times> discord_module
     \<Rightarrow> ((error + resource list) \<times> nat) \<times> (server \<times> discord_module)" where
  "handle_list_resources env now sg =
     (case await_bot_ready env now sg of
        ((Inl e, t), sg') \<Rightarrow> ((Inl e, t), sg')
      | ((Inr u, t), sg') \<Rightarrow>
          (case global_bot (snd sg') of
             None \<Rightarrow> ((Inl AttributeError, t), sg')
           | Some b \<Rightarrow>
               ((Inr (concat (map (\<lambda>gu. map (\<lambda>ch.
                        \<lparr> uri = resource_uri (guild_id gu) (channel_id ch),
                          mime_type = ''text/plain'',
                          res_name = guild_name gu @ ''/'' @ channel_name ch \<rparr>)
                      (text_channels gu)) (guilds env))), t), sg')))"

text \<open>
  Lines 181--189 of \<^verbatim>\<open>handle_read_resource\<close>: the URI is cut into the guild and channel
  identifiers.  (The second message of the source also prints the list \<^verbatim>\<open>parts\<close>; the
  model's message stops before it.)
\<close>

definition parse_resource_uri :: "string \<Rightarrow> error + string \<times> string" where
  "parse_resource_uri uri_str =
     (if startswith uri_str ''discord:///'' then
        (let path = py_remove ''discord:///'' uri_str;
             parts = split_n 1 CHR ''/'' path
         in if length parts \<ge> 2 then Inr (parts ! 0, parts ! 1)
            else Inl (ValueError (''Invalid URI format: '' @ uri_str)))
      else Inl (ValueError (''Unexpected URI format: '' @ uri_str)))"

text \<open>
  \<^verbatim>\<open>handle_read_resource\<close>, lines 167--223.  Everything after the readiness prelude runs
  inside \<^verbatim>\<open>try ... except Exception\<close>, which turns any exception \<open>e\<close> into the text
  \<^verbatim>\<open>f"Error reading resource: {e}"\<close> (\<open>ErrorText e\<close>).  \<open>ReadChannel g c\<close> is the point where
  the handler asks the Discord client for channel \<open>c\<close>; what the client answers (the
  channel's messages, "Channel not found", or an exception, which is caught as well) is
  returned as text.
\<close>

datatype read_result =
    ErrorText error
  | ReadChannel string int

definition handle_read_resource ::
  "builtins \<Rightarrow> env \<Rightarrow> nat \<Rightarrow> string \<Rightarrow> server \<times> discord_module
     \<Rightarrow> ((error + read_result) \<times> nat) \<times> (server \<times> discord_module)" where
  "handle_read_resource B env now uri_str sg =
     (case await_bot_ready env now sg of
        ((Inl e, t), sg') \<Rightarrow> ((Inl e, t), sg')
      | ((Inr u, t), sg') \<Rightarrow>
          ((Inr (case parse_resource_uri uri_str of
                   Inl e \<Rightarrow> ErrorText e
                 | Inr (gid, cid) \<Rightarrow>
                     (case global_bot (snd sg') of
                        None \<Rightarrow> ErrorText AttributeError
                      | Some b \<Rightarrow>
                          (case int_of_str B cid of
                             Inl e \<Rightarrow> ErrorText e
                           | Inr c \<Rightarrow> ReadChannel gid c))), t), sg'))"

subsection \<open>Tools\<close>

text \<open>
  \<^verbatim>\<open>handle_list_tools\<close>, lines 225--411: the static tool table.  Of each tool the model keeps
  the name and, of its input schema, the property names and the \<^verbatim>\<open>required\<close> list (the
  descriptions and property types are left out).
\<close>

record tool =
  tool_name :: string
  properties :: "string list"
  required :: "string list"

definition handle_list_tools :: "tool list" where
  "handle_list_tools =
     [\<lparr> tool_name = ''send_message'',
        properties = [''channel_id'', ''content''],
        required = [''channel_id'', ''content''] \<rparr>,
      \<lparr> tool_name = ''read_messages'',
        properties = [''channel_id'', ''limit''],
        required = [''channel_id''] \<rparr>,
      \<lparr> tool_name = ''add_reaction'',
        properties = [''channel_id'', ''message_id'', ''emoji''],
        required = [''channel_id'', ''message_id'', ''emoji''] \<rparr>,
      \<lparr> tool_name = ''edit_message'',
        properties = [''channel_id'', ''message_id'', ''content''],
        required = [''channel_id'', ''message_id'', ''content''] \<rparr>,
      \<lparr> tool_name = ''delete_message'',
        properties = [''channel_id'', ''message_id''],
        required = [''channel_id'', ''message_id''] \<rparr>,
      \<lparr> tool_name = ''send_embed'',
        properties = [''channel_id'', ''title'', ''description'', ''color'', ''footer'', ''image_url'', ''thumbnail_url'', ''fields''],
        required = [''channel_id'', ''title''] \<rparr>,
      \<lparr> tool_name = ''get_user_info'',
        properties = [''user_id''],
        required = [''user_id''] \<rparr>,
      \<lparr> tool_name = ''send_dm'',
        properties = [''user_id'', ''content''],
        required = [''user_id'', ''content''] \<rparr>,
      \<lparr> tool_name = ''ban_member'',
        properties = [''guild_id'', ''user_id'', ''reason'', ''delete_message_days''],
        required = [''guild_id'', ''user_id''] \<rparr>,
      \<lparr> tool_name = ''kick_member'',
        properties = [''guild_id'', ''user_id'', ''reason''],
        required = [''guild_id'', ''user_id''] \<rparr>,
      \<lparr> tool_name = ''mute_member'',
        properties = [''guild_id'', ''user_id'', ''mute''],
        required = [''guild_id'', ''user_id'', ''mute''] \<rparr>,
      \<lparr> tool_name = ''assign_role'',
        properties = [''guild_id'', ''user_id'', ''role_id'', ''add''],
        required = [''guild_id'', ''user_id'', ''role_id'', ''add''] \<rparr>,
      \<lparr> tool_name = ''list_members'',
        properties = [''guild_id'', ''limit''],
        required = [''guild_id''] \<rparr>]"

text \<open>
  What a branch of \<^verbatim>\<open>handle_call_tool\<close> has extracted from the arguments when it makes its
  first call on the Discord client.  From there on the branch talks to Discord: it returns
  text (a result, or a not-found or permission message) unless the client raises something
  the branch does not catch.
\<close>

datatype request =
    SendMessage pyval pyval
  | ReadMessages pyval int
  | AddReaction pyval pyval pyval
  | EditMessage pyval pyval pyval
  | DeleteMessage pyval pyval
  | SendEmbed pyval "(string \<times> pyval) list"
  | GetUserInfo pyval
  | SendDm pyval pyval
  | BanMember pyval pyval pyval int
  | KickMember pyval pyval pyval
  | MuteMember pyval pyval pyval
  | AssignRole pyval pyval pyval pyval
  | ListMembers pyval int

text \<open>
  The first use of the global \<^verbatim>\<open>bot\<close> in a branch (\<^verbatim>\<open>bot.get_channel\<close>, \<^verbatim>\<open>bot.fetch_user\<close>,
  \<^verbatim>\<open>bot.get_guild\<close>): an attribute access on \<^verbatim>\<open>None\<close> when no bot was ever created.
\<close>

definition with_client :: "nat option \<Rightarrow> request \<Rightarrow> error + request" where
  "with_client client r = (case client of None \<Rightarrow> Inl AttributeError | Some b \<Rightarrow> Inr r)"

text \<open>The branches of \<^verbatim>\<open>handle_call_tool\<close>, lines 426--841, one definition per tool.\<close>

definition tool_send_message :: "nat option \<Rightarrow> (string \<times> pyval) list option \<Rightarrow> error + request" where
  "tool_send_message client arguments =
     (if lacks arguments [''channel_id'', ''content'']
      then Inl (ValueError ''Missing required parameters: channel_id and content'')
      else with_client client (SendMessage (arg arguments ''channel_id'') (arg arguments ''content'')))"

definition tool_read_messages ::
  "builtins \<Rightarrow> nat option \<Rightarrow> (string \<times> pyval) list option \<Rightarrow> error + request" where
  "tool_read_messages B client arguments =
     (if lacks arguments [''channel_id'']
      then Inl (ValueError ''Missing required parameter: channel_id'')
      else (case py_int B (dict_get (the arguments) ''limit'' (PInt 10)) of
              Inl e \<Rightarrow> Inl e
            | Inr limit \<Rightarrow> with_client client (ReadMessages (arg arguments ''channel_id'') limit)))"

definition tool_add_reaction :: "nat option \<Rightarrow> (string \<times> pyval) list option \<Rightarrow> error + request" where
  "tool_add_reaction client arguments =
     (if lacks arguments [''channel_id'', ''message_id'', ''emoji'']
      then Inl (ValueError ''Missing required parameters: channel_id, message_id, and emoji'')
      else with_client client
             (AddReaction (arg arguments ''channel_id'') (arg arguments ''message_id'')
                (arg arguments ''emoji'')))"

definition tool_edit_message :: "nat option \<Rightarrow> (string \<times> pyval) list option \<Rightarrow> error + request" where
  "tool_edit_message client arguments =
     (if lacks arguments [''channel_id'', ''message_id'', ''content'']
      then Inl (ValueError ''Missing required parameters: channel_id, message_id, and content'')
      else with_client client
             (EditMessage (arg arguments ''channel_id'') (arg arguments ''message_id'')
                (arg arguments ''content'')))"

definition tool_delete_message :: "nat option \<Rightarrow> (string \<times> pyval) list option \<Rightarrow> error + request" where
  "tool_delete_message client arguments =
     (if lacks arguments [''channel_id'', ''message_id'']
      then Inl (ValueError ''Missing required parameters: channel_id and message_id'')
      else with_client client
             (DeleteMessage (arg arguments ''channel_id'') (arg arguments ''message_id'')))"

definition tool_send_embed :: "nat option \<Rightarrow> (string \<times> pyval) list option \<Rightarrow> error + request" where
  "tool_send_embed client arguments =
     (if lacks arguments [''channel_id'', ''title'']
      then Inl (ValueError ''Missing required parameters: channel_id and title'')
      else with_client client (SendEmbed (arg arguments ''channel_id'') (the arguments)))"

definition tool_get_user_info :: "nat option \<Rightarrow> (string \<times> pyval) list option \<Rightarrow> error + request" where
  "tool_get_user_info client arguments =
     (if lacks arguments [''user_id'']
      then Inl (ValueError ''Missing required parameter: user_id'')
      else with_client client (GetUserInfo (arg arguments ''user_id'')))"

definition tool_send_dm :: "nat option \<Rightarrow> (string \<times> pyval) list option \<Rightarrow> error + request" where
  "tool_send_dm client arguments =
     (if lacks arguments [''user_id'', ''content'']
      then Inl (ValueError ''Missing required parameters: user_id and content'')
      else with_client client (SendDm (arg arguments ''user_id'') (arg arguments ''content'')))"

text \<open>Line 692: \<^verbatim>\<open>delete_message_days = min(7, max(0, int(arguments.get("delete_message_days", 0))))\<close>.\<close>

definition tool_ban_member ::
  "builtins \<Rightarrow> nat option \<Rightarrow> (string \<times> pyval) list option \<Rightarrow> error + request" where
  "tool_ban_member B client arguments =
     (if lacks arguments [''guild_id'', ''user_id'']
      then Inl (ValueError ''Missing required parameters: guild_id and user_id'')
      else (let reason = dict_get (the arguments) ''reason'' (PStr ''No reason provided'')
            in case py_int B (dict_get (the arguments) ''delete_message_days'' (PInt 0)) of
                 Inl e \<Rightarrow> Inl e
               | Inr n \<Rightarrow>
                   (let delete_message_days = min 7 (max 0 n)
                    in with_client client
                         (BanMember (arg arguments ''guild_id'') (arg arguments ''user_id'')
                            reason delete_message_days))))"

definition tool_kick_member :: "nat option \<Rightarrow> (string \<times> pyval) list option \<Rightarrow> error + request" where
  "tool_kick_member client arguments =
     (if lacks arguments [''guild_id'', ''user_id'']
      then Inl (ValueError ''Missing required parameters: guild_id and user_id'')
      else with_client client
             (KickMember (arg arguments ''guild_id'') (arg arguments ''user_id'')
                (dict_get (the arguments) ''reason'' (PStr ''No reason provided''))))"

definition tool_mute_member :: "nat option \<Rightarrow> (string \<times> pyval) list option \<Rightarrow> error + request" where
  "tool_mute_member client arguments =
     (if lacks arguments [''guild_id'', ''user_id'', ''mute'']
      then Inl (ValueError ''Missing required parameters: guild_id, user_id, and mute'')
      else with_client client
             (MuteMember (arg arguments ''guild_id'') (arg arguments ''user_id'')
                (arg arguments ''mute'')))"

definition tool_assign_role :: "nat option \<Rightarrow> (string \<times> pyval) list option \<Rightarrow> error + request" where
  "tool_assign_role client arguments =
     (if lacks arguments [''guild_id'', ''user_id'', ''role_id'', ''add'']
      then Inl (ValueError ''Missing required parameters: guild_id, user_id, role_id, and add'')
      else with_client client
             (AssignRole (arg arguments ''guild_id'') (arg arguments ''user_id'')
                (arg arguments ''role_id'') (arg arguments ''add'')))"

text \<open>Line 815: \<^verbatim>\<open>limit = min(1000, max(1, int(arguments.get("limit", 50))))\<close>.\<close>

definition tool_list_members ::
  "builtins \<Rightarrow> nat option \<Rightarrow> (string \<times> pyval) list option \<Rightarrow> error + request" where
  "tool_list_members B client arguments =
     (if lacks arguments [''guild_id'']
      then Inl (ValueError ''Missing required parameter: guild_id'')
      else (case py_int B (dict_get (the arguments) ''limit'' (PInt 50)) of
              Inl e \<Rightarrow> Inl e
            | Inr n \<Rightarrow>
                (let limit = min 1000 (max 1 n)
                 in with_client client (ListMembers (arg arguments ''guild_id'') limit))))"

text \<open>
  The \<^verbatim>\<open>if name == ... elif ...\<close> chain of \<^verbatim>\<open>handle_call_tool\<close>, ending in line 843:
  \<^verbatim>\<open>raise ValueError(f"Unknown tool: {name}")\<close>.
\<close>

definition dispatch_tool ::
  "builtins \<Rightarrow> nat option \<Rightarrow> string \<Rightarrow> (string \<times> pyval) list option \<Rightarrow> error + request" where
  "dispatch_tool B client name arguments =
     (if name = ''send_message'' then tool_send_message client arguments
      else if name = ''read_messages'' then tool_read_messages B client arguments
      else if name = ''add_reaction'' then tool_add_reaction client arguments
      else if name = ''edit_message'' then tool_edit_message client arguments
      else if name = ''delete_message'' then tool_delete_message client arguments
      else if name = ''send_embed'' then tool_send_embed client arguments
      else if name = ''get_user_info'' then tool_get_user_info client arguments
      else if name = ''send_dm'' then tool_send_dm client arguments
      else if name = ''ban_member'' then tool_ban_member B client arguments
      else if name = ''kick_member'' then tool_kick_member client arguments
      else if name = ''mute_member'' then tool_mute_member client arguments
      else if name = ''assign_role'' then tool_assign_role client arguments
      else if name = ''list_members'' then tool_list_members B client arguments
      else Inl (ValueError (''Unknown tool: '' @ name)))"

text \<open>
  \<^verbatim>\<open>handle_call_tool\<close>, lines 413--843, for a call issued at instant \<open>now\<close>: the readiness
  prelude, then the dispatch.  \<open>Inl e\<close> is an exception that leaves the handler.
\<close>

definition handle_call_tool ::
  "builtins \<Rightarrow> env \<Rightarrow> nat \<Rightarrow> string \<Rightarrow> (string \<times> pyval) list option \<Rightarrow> server \<times> discord_module
     \<Rightarrow> ((error + request) \<times> nat) \<times> (server \<times> discord_module)" where
  "handle_call_tool B env now name arguments sg =
     (case await_bot_ready env now sg of
        ((Inl e, t), sg') \<Rightarrow> ((Inl e, t), sg')
      | ((Inr u, t), sg') \<Rightarrow> ((dispatch_tool B (global_bot (snd sg')) name arguments, t), sg'))"

text \<open>
  The registration of line 413, \<^verbatim>\<open>@server.call_tool()\<close>: the only way the program reaches
  \<^verbatim>\<open>handle_call_tool\<close>.  The decorator is the \<^verbatim>\<open>mcp\<close> library's, which is not among the
  sources; the model keeps what its request handler does with the function it wraps.  It
  calls the function with the request's tool name and with \<^verbatim>\<open>arguments or {}\<close>.  What the
  function returns is the content of the result sent to the caller (\<open>ToolContent\<close>,
  \<^verbatim>\<open>isError\<close> false).  Any exception \<open>e\<close> the function raises is caught and sent to the caller
  as a result as well: one text block holding \<^verbatim>\<open>str(e)\<close>, with \<^verbatim>\<open>isError\<close> true (\<open>ToolError e\<close>).
\<close>

datatype call_tool_result =
    ToolContent request
  | ToolError error

definition call_tool_request ::
  "builtins \<Rightarrow> env \<Rightarrow> nat \<Rightarrow> string \<Rightarrow> (string \<times> pyval) list option \<Rightarrow> server \<times> discord_module
     \<Rightarrow> (call_tool_result \<times> nat) \<times> (server \<times> discord_module)" where
  "call_tool_request B env now name arguments sg =
     (case handle_call_tool B env now name
             (Some (case arguments of None \<Rightarrow> [] | Some d \<Rightarrow> d)) sg of
        ((Inl e, t), sg') \<Rightarrow> ((ToolError e, t), sg')
      | ((Inr r, t), sg') \<Rightarrow> ((ToolContent r, t), sg'))"

subsection \<open>Sample environments\<close>

text \<open>
  Concrete collaborators for the examples below: a builtin \<^verbatim>\<open>int\<close> that rejects every
  string and float, a credential store that is empty, one that knows every user and
  whose bot logs in after 3 time units, and one whose bot needs 45.
\<close>

definition no_conversions :: builtins where
  "no_conversions = \<lparr> int_of_str = (\<lambda>s. Inl (ValueError s)), int_of_float = (\<lambda>f. Inl TypeError) \<rparr>"

definition env_no_credentials :: env where
  "env_no_credentials =
     \<lparr> get_user_credentials = (\<lambda>akey service uid. None), ready_delay = (\<lambda>token. None), guilds = [] \<rparr>"

definition env_ready :: env where
  "env_ready =
     \<lparr> get_user_credentials = (\<lambda>akey service uid. Some [(''token'', ''token-of-'' @ uid)]),
       ready_delay = (\<lambda>token. Some 3),
       guilds = [\<lparr> guild_id = 12, guild_name = ''lab'',
                   text_channels = [\<lparr> channel_id = 345, channel_name = ''general'' \<rparr>] \<rparr>] \<rparr>"

definition env_slow_login :: env where
  "env_slow_login =
     \<lparr> get_user_credentials = (\<lambda>akey service uid. Some [(''token'', ''token-of-'' @ uid)]),
       ready_delay = (\<lambda>token. Some 45),
       guilds = [] \<rparr>"

section \<open>Properties of the session router\<close>

lemma sse_open_instances_stable:
  "user_server_instances s k = Some r \<Longrightarrow>
   user_server_instances (snd (sse_open fac server_name enc s)) k = Some r"
  by (auto simp: sse_open_def Let_def split: option.splits sum.splits)

lemma sse_close_instances [simp]:
  "user_server_instances (sse_close s c) = user_server_instances s"
  by (simp add: sse_close_def)

lemma sse_close_objects [simp]:
  "objects (sse_close s c) = objects s"
  by (simp add: sse_close_def)

lemma sse_close_factory_calls [simp]:
  "factory_calls (sse_close s c) = factory_calls s"
  by (simp add: sse_close_def)

lemma sse_close_transport_released [simp]:
  "user_session_transports (sse_close s c) (c_session_key c) = None"
  by (simp add: sse_close_def)

lemma sse_open_key:
  "fst (sse_open fac server_name enc s) = Inr c \<Longrightarrow>
   c_session_key c = session_key server_name enc"
  by (auto simp: sse_open_def Let_def split: option.splits sum.splits)

lemma sse_open_bound:
  "fst (sse_open fac server_name enc s) = Inr c \<Longrightarrow>
   user_server_instances (snd (sse_open fac server_name enc s)) (session_key server_name enc)
     = Some (c_instance c)"
  by (auto simp: sse_open_def Let_def split: option.splits sum.splits)

lemma sse_open_reuse:
  "user_server_instances s (session_key server_name enc) = Some r \<Longrightarrow>
   \<exists>c. fst (sse_open fac server_name enc s) = Inr c \<and> c_instance c = r \<and>
       c_session_key c = session_key server_name enc \<and>
       c_transport c = \<lparr> t_ref = allocated s,
                          t_endpoint = ''/'' @ server_name @ ''/'' @ enc @ ''/messages/'' \<rparr> \<and>
       user_session_transports (snd (sse_open fac server_name enc s))
         (session_key server_name enc) = Some (c_transport c) \<and>
       open_connections (snd (sse_open fac server_name enc s)) = open_connections s @ [c] \<and>
       factory_calls (snd (sse_open fac server_name enc s)) = factory_calls s \<and>
       objects (snd (sse_open fac server_name enc s)) = objects s \<and>
       user_server_instances (snd (sse_open fac server_name enc s)) = user_server_instances s"
  by (simp add: sse_open_def Let_def)

lemma sse_open_transport_fresh:
  "fst (sse_open fac server_name enc s) = Inr c \<Longrightarrow> t_ref (c_transport c) = allocated s"
  by (auto simp: sse_open_def Let_def split: option.splits sum.splits)

lemma sse_open_allocated:
  "allocated s < allocated (snd (sse_open fac server_name enc s))"
  by (auto simp: sse_open_def Let_def split: option.splits sum.splits)

lemma sse_open_stores_transport:
  "fst (sse_open fac server_name enc s) = Inr c \<Longrightarrow>
   user_session_transports (snd (sse_open fac server_name enc s)) (session_key server_name enc)
     = Some (c_transport c)"
  by (auto simp: sse_open_def Let_def split: option.splits sum.splits)

lemma sse_open_registers:
  "fst (sse_open fac server_name enc s) = Inr c \<Longrightarrow>
   open_connections (snd (sse_open fac server_name enc s)) = open_connections s @ [c]"
  by (auto simp: sse_open_def Let_def split: option.splits sum.splits)

lemma handle_message_after_close:
  "c_session_key c = session_key server_name enc \<Longrightarrow>
   handle_message server_name enc (sse_close s c)
     = Response (''Session not found or expired for session '' @ session_key server_name enc) 404"
  using sse_close_transport_released [of s c]
  by (simp add: handle_message_def Let_def)





lemma step_Connect:
  "step fac (Connect server_name enc) s =
     ((case fst (sse_open fac server_name enc s) of Inl e \<Rightarrow> Failed e | Inr c \<Rightarrow> Opened c),
      snd (sse_open fac server_name enc s))"
  by (simp add: step_def split: prod.splits sum.splits)

lemma step_Disconnect:
  "step fac (Disconnect i) s =
     (if i < length (open_connections s) then (Closed, sse_close s (open_connections s ! i))
      else (Skipped, s))"
  by (simp add: step_def)

lemma step_Post:
  "step fac (Post server_name enc) s = (Replied (handle_message server_name enc s), s)"
  by (simp add: step_def)

lemma run_Cons:
  "run fac (ev # evs) s =
     (fst (step fac ev s) # fst (run fac evs (snd (step fac ev s))),
      snd (run fac evs (snd (step fac ev s))))"
  by (simp split: prod.splits)

lemma opened_for_Cons:
  "opened_for k (out # outs) = opened_for k [out] @ opened_for k outs"
  by (cases out) auto

lemma step_instances_stable:
  "user_server_instances s k = Some r \<Longrightarrow>
   user_server_instances (snd (step fac ev s)) k = Some r"
  by (cases ev) (simp_all add: step_Connect step_Disconnect step_Post sse_open_instances_stable)

lemma run_instances_stable:
  "user_server_instances s k = Some r \<Longrightarrow>
   user_server_instances (snd (run fac evs s)) k = Some r"
proof (induction evs arbitrary: s)
  case Nil
  then show ?case by simp
next
  case (Cons ev evs)
  have "user_server_instances (snd (step fac ev s)) k = Some r"
    using Cons.prems by (rule step_instances_stable)
  from Cons.IH [OF this] show ?case
    by (simp only: run_Cons snd_conv)
qed

lemma sse_open_present:
  "user_server_instances s k = Some r \<Longrightarrow>
   count_list (factory_calls (snd (sse_open fac server_name enc s))) k = count_list (factory_calls s) k
   \<and> (\<forall>c. fst (sse_open fac server_name enc s) = Inr c \<longrightarrow> c_session_key c = k \<longrightarrow> c_instance c = r)"
  by (auto simp: sse_open_def Let_def split: option.splits sum.splits)

lemma step_present:
  "user_server_instances s k = Some r \<Longrightarrow>
   count_list (factory_calls (snd (step fac ev s))) k = count_list (factory_calls s) k
   \<and> (\<forall>c \<in> set (opened_for k [fst (step fac ev s)]). c_instance c = r)"
  using sse_open_present [of s k r fac]
  by (cases ev) (auto simp: step_Connect step_Disconnect step_Post split: sum.splits)

lemma run_present:
  "user_server_instances s k = Some r \<Longrightarrow>
   count_list (factory_calls (snd (run fac evs s))) k = count_list (factory_calls s) k
   \<and> (\<forall>c \<in> set (opened_for k (fst (run fac evs s))). c_instance c = r)"
proof (induction evs arbitrary: s)
  case Nil
  then show ?case by simp
next
  case (Cons ev evs)
  let ?s' = "snd (step fac ev s)"
  have st: "user_server_instances ?s' k = Some r"
    using Cons.prems by (rule step_instances_stable)
  have split_out: "opened_for k (fst (run fac (ev # evs) s)) =
      opened_for k [fst (step fac ev s)] @ opened_for k (fst (run fac evs ?s'))"
    by (simp only: run_Cons fst_conv) (rule opened_for_Cons)
  have final: "snd (run fac (ev # evs) s) = snd (run fac evs ?s')"
    by (simp only: run_Cons snd_conv)
  from step_present [OF Cons.prems, of fac ev] Cons.IH [OF st] show ?case
    unfolding split_out final by auto
qed

lemma sse_open_absent_same:
  assumes "user_server_instances s (session_key server_name enc) = None"
    and "\<forall>u a. \<exists>i. fac u a = Inr i"
  shows "\<exists>c. fst (sse_open fac server_name enc s) = Inr c
           \<and> c_session_key c = session_key server_name enc
           \<and> user_server_instances (snd (sse_open fac server_name enc s)) (session_key server_name enc)
               = Some (c_instance c)
           \<and> factory_calls (snd (sse_open fac server_name enc s))
               = factory_calls s @ [session_key server_name enc]"
proof -
  obtain i where "fac (fst (parse_session enc)) (snd (parse_session enc)) = Inr i"
    using assms(2) by blast
  with assms(1) show ?thesis
    by (simp add: sse_open_def Let_def)
qed

lemma sse_open_absent_other:
  assumes "user_server_instances s k = None"
    and "session_key server_name enc \<noteq> k"
  shows "user_server_instances (snd (sse_open fac server_name enc s)) k = None
       \<and> count_list (factory_calls (snd (sse_open fac server_name enc s))) k
           = count_list (factory_calls s) k
       \<and> (\<forall>c. fst (sse_open fac server_name enc s) = Inr c \<longrightarrow> c_session_key c \<noteq> k)"
  using assms by (auto simp: sse_open_def Let_def split: option.splits sum.splits)

lemma step_absent_other:
  assumes "user_server_instances s k = None"
    and "\<not> connects_to k ev"
  shows "user_server_instances (snd (step fac ev s)) k = None
       \<and> count_list (factory_calls (snd (step fac ev s))) k = count_list (factory_calls s) k
       \<and> opened_for k [fst (step fac ev s)] = []"
proof (cases ev)
  case (Connect server_name enc)
  with assms(2) have "session_key server_name enc \<noteq> k" by simp
  from sse_open_absent_other [OF assms(1) this, of fac] Connect show ?thesis
    by (auto simp: step_Connect split: sum.splits)
next
  case (Disconnect i)
  with assms(1) show ?thesis by (simp add: step_Disconnect)
next
  case (Post server_name enc)
  with assms(1) show ?thesis by (simp add: step_Post)
qed

lemma step_absent_same:
  assumes "user_server_instances s k = None"
    and "\<forall>u a. \<exists>i. fac u a = Inr i"
    and "connects_to k ev"
  shows "\<exists>c. opened_for k [fst (step fac ev s)] = [c]
           \<and> user_server_instances (snd (step fac ev s)) k = Some (c_instance c)
           \<and> count_list (factory_calls (snd (step fac ev s))) k
               = Suc (count_list (factory_calls s) k)"
proof (cases ev)
  case (Connect server_name enc)
  with assms(3) have k: "session_key server_name enc = k" by simp
  from sse_open_absent_same [OF _ assms(2), of s server_name enc] assms(1) k
  obtain c where "fst (sse_open fac server_name enc s) = Inr c"
    "c_session_key c = k"
    "user_server_instances (snd (sse_open fac server_name enc s)) k = Some (c_instance c)"
    "factory_calls (snd (sse_open fac server_name enc s)) = factory_calls s @ [k]"
    by auto
  with Connect show ?thesis
    by (simp add: step_Connect)
next
  case (Disconnect i)
  with assms(3) show ?thesis by simp
next
  case (Post server_name enc)
  with assms(3) show ?thesis by simp
qed


lemma sse_open_frames_bound:
  assumes inv: "\<forall>c \<in> set (open_connections s).
      user_server_instances s (c_session_key c) = Some (c_instance c)"
  shows "\<forall>c \<in> set (open_connections (snd (sse_open fac server_name enc s))).
      user_server_instances (snd (sse_open fac server_name enc s)) (c_session_key c)
        = Some (c_instance c)"
proof
  fix c
  assume c: "c \<in> set (open_connections (snd (sse_open fac server_name enc s)))"
  show "user_server_instances (snd (sse_open fac server_name enc s)) (c_session_key c)
        = Some (c_instance c)"
  proof (cases "c \<in> set (open_connections s)")
    case True
    with inv have "user_server_instances s (c_session_key c) = Some (c_instance c)" by blast
    then show ?thesis by (rule sse_open_instances_stable)
  next
    case False
    with c have "fst (sse_open fac server_name enc s) = Inr c"
      by (auto simp: sse_open_def Let_def split: option.splits sum.splits)
    from sse_open_bound [OF this] sse_open_key [OF this] show ?thesis by simp
  qed
qed

lemma sse_close_frames_bound:
  assumes inv: "\<forall>c \<in> set (open_connections s).
      user_server_instances s (c_session_key c) = Some (c_instance c)"
  shows "\<forall>c \<in> set (open_connections (sse_close s c0)).
      user_server_instances (sse_close s c0) (c_session_key c) = Some (c_instance c)"
proof
  fix c
  assume "c \<in> set (open_connections (sse_close s c0))"
  then have "c \<in> set (open_connections s)"
    using set_remove1_subset [of c0 "open_connections s"] by (auto simp: sse_close_def)
  with inv show "user_server_instances (sse_close s c0) (c_session_key c) = Some (c_instance c)"
    by simp
qed

lemma step_frames_bound:
  assumes inv: "\<forall>c \<in> set (open_connections s).
      user_server_instances s (c_session_key c) = Some (c_instance c)"
  shows "\<forall>c \<in> set (open_connections (snd (step fac ev s))).
      user_server_instances (snd (step fac ev s)) (c_session_key c) = Some (c_instance c)"
proof (cases ev)
  case (Connect server_name enc)
  with sse_open_frames_bound [OF inv, of fac server_name enc] show ?thesis
    by (simp add: step_Connect)
next
  case (Disconnect i)
  with sse_close_frames_bound [OF inv] inv show ?thesis
    by (simp add: step_Disconnect)
next
  case (Post server_name enc)
  with inv show ?thesis by (simp add: step_Post)
qed

lemma run_frames_bound:
  assumes inv: "\<forall>c \<in> set (open_connections s).
      user_server_instances s (c_session_key c) = Some (c_instance c)"
  shows "\<forall>c \<in> set (open_connections (snd (run fac evs s))).
      user_server_instances (snd (run fac evs s)) (c_session_key c) = Some (c_instance c)"
  using inv
proof (induction evs arbitrary: s)
  case Nil
  then show ?case by simp
next
  case (Cons ev evs)
  from Cons.IH [OF step_frames_bound [OF Cons.prems, of fac ev]] show ?case
    by (simp only: run_Cons snd_conv)
qed

text \<open>
  Claim C5.  For every state \<open>s\<close> of the router and every connection frame \<open>c\<close>, the
  cleanup that runs when \<open>c\<close> closes releases the transport stored under its session key
  and leaves the whole instance store and every server object as they were.  If the key of
  \<open>c\<close> maps to the instance of \<open>c\<close>, the next connection request for the key is bound to
  that instance, with no factory call and no new object.  That condition holds of every
  connection that is open in any state the router can reach, also when several connections
  for one key overlap.
\<close>

theorem disconnect_keeps_instance:
  "user_session_transports (sse_close s c) (c_session_key c) = None
   \<and> user_server_instances (sse_close s c) = user_server_instances s
   \<and> objects (sse_close s c) = objects s
   \<and> (user_server_instances s (c_session_key c) = Some (c_instance c) \<longrightarrow>
        session_key server_name enc = c_session_key c \<longrightarrow>
        (\<exists>c'. fst (sse_open fac' server_name enc (sse_close s c)) = Inr c'
            \<and> c_instance c' = c_instance c
            \<and> factory_calls (snd (sse_open fac' server_name enc (sse_close s c)))
                = factory_calls s
            \<and> objects (snd (sse_open fac' server_name enc (sse_close s c))) = objects s
            \<and> user_server_instances (snd (sse_open fac' server_name enc (sse_close s c)))
                = user_server_instances s))
   \<and> (\<forall>c0 \<in> set (open_connections (snd (run fac evs init_app))).
        user_server_instances (snd (run fac evs init_app)) (c_session_key c0)
          = Some (c_instance c0))"
proof (intro conjI impI)
  show "user_session_transports (sse_close s c) (c_session_key c) = None" by simp
  show "user_server_instances (sse_close s c) = user_server_instances s" by simp
  show "objects (sse_close s c) = objects s" by simp
next
  assume "user_server_instances s (c_session_key c) = Some (c_instance c)"
    and k: "session_key server_name enc = c_session_key c"
  then have "user_server_instances (sse_close s c) (session_key server_name enc)
      = Some (c_instance c)" by simp
  from sse_open_reuse [OF this, of fac']
  show "\<exists>c'. fst (sse_open fac' server_name enc (sse_close s c)) = Inr c'
            \<and> c_instance c' = c_instance c
            \<and> factory_calls (snd (sse_open fac' server_name enc (sse_close s c)))
                = factory_calls s
            \<and> objects (snd (sse_open fac' server_name enc (sse_close s c))) = objects s
            \<and> user_server_instances (snd (sse_open fac' server_name enc (sse_close s c)))
                = user_server_instances s"
    by auto
next
  show "\<forall>c0 \<in> set (open_connections (snd (run fac evs init_app))).
        user_server_instances (snd (run fac evs init_app)) (c_session_key c0)
          = Some (c_instance c0)"
    using run_frames_bound [of init_app fac evs] by (simp add: init_app_def)
qed

theorem disconnect_keeps_instance_witness:
  "open_connections (snd (run discord_server
       [Connect ''discord'' ''alice'', Connect ''discord'' ''alice''] init_app))
     = [\<lparr>c_session_key = ''discord:alice'',
         c_transport = \<lparr>t_ref = 0, t_endpoint = ''/discord/alice/messages/''\<rparr>, c_instance = 1\<rparr>,
        \<lparr>c_session_key = ''discord:alice'',
         c_transport = \<lparr>t_ref = 2, t_endpoint = ''/discord/alice/messages/''\<rparr>, c_instance = 1\<rparr>]
   \<and> user_server_instances (snd (run discord_server
       [Connect ''discord'' ''alice'', Connect ''discord'' ''alice''] init_app)) ''discord:alice''
     = Some 1
   \<and> session_key ''discord'' ''alice'' = ''discord:alice''
   \<and> user_session_transports (sse_close (snd (run discord_server
         [Connect ''discord'' ''alice'', Connect ''discord'' ''alice''] init_app))
       \<lparr>c_session_key = ''discord:alice'',
        c_transport = \<lparr>t_ref = 0, t_endpoint = ''/discord/alice/messages/''\<rparr>, c_instance = 1\<rparr>)
       ''discord:alice'' = None
   \<and> user_server_instances (sse_close (snd (run discord_server
         [Connect ''discord'' ''alice'', Connect ''discord'' ''alice''] init_app))
       \<lparr>c_session_key = ''discord:alice'',
        c_transport = \<lparr>t_ref = 0, t_endpoint = ''/discord/alice/messages/''\<rparr>, c_instance = 1\<rparr>)
       ''discord:alice'' = Some 1
   \<and> (\<exists>c'. fst (sse_open discord_server ''discord'' ''alice''
          (sse_close (snd (run discord_server
             [Connect ''discord'' ''alice'', Connect ''discord'' ''alice''] init_app))
           \<lparr>c_session_key = ''discord:alice'',
            c_transport = \<lparr>t_ref = 0, t_endpoint = ''/discord/alice/messages/''\<rparr>,
            c_instance = 1\<rparr>)) = Inr c'
        \<and> c_instance c' = 1)"
  using disconnect_keeps_instance [of
      "snd (run discord_server [Connect ''discord'' ''alice'', Connect ''discord'' ''alice''] init_app)"
      "\<lparr>c_session_key = ''discord:alice'',
        c_transport = \<lparr>t_ref = 0, t_endpoint = ''/discord/alice/messages/''\<rparr>, c_instance = 1\<rparr>"
      "''discord''" "''alice''" discord_server discord_server
      "[Connect ''discord'' ''alice'', Connect ''discord'' ''alice'']"]
  by (simp add: step_def sse_open_def sse_close_def init_app_def session_key_def
        discord_server_def Let_def)

lemma sse_close_allocated [simp]: "allocated (sse_close s c) = allocated s"
  by (simp add: sse_close_def)

lemma sse_open_objects_stable:
  "r < allocated s \<Longrightarrow>
   objects (snd (sse_open fac server_name enc s)) r = objects s r
   \<and> r < allocated (snd (sse_open fac server_name enc s))"
  by (auto simp: sse_open_def Let_def split: option.splits sum.splits)

lemma step_objects_stable:
  "r < allocated s \<Longrightarrow>
   objects (snd (step fac ev s)) r = objects s r \<and> r < allocated (snd (step fac ev s))"
  by (cases ev) (simp_all add: step_Connect step_Disconnect step_Post sse_open_objects_stable)

lemma run_objects_stable:
  "r < allocated s \<Longrightarrow> objects (snd (run fac evs s)) r = objects s r"
proof (induction evs arbitrary: s)
  case Nil
  then show ?case by simp
next
  case (Cons ev evs)
  from step_objects_stable [OF Cons.prems, of fac ev]
  have a: "objects (snd (step fac ev s)) r = objects s r"
    and b: "r < allocated (snd (step fac ev s))" by simp_all
  from Cons.IH [OF b] a show ?case
    by (simp only: run_Cons snd_conv)
qed

lemma step_present_length:
  assumes "user_server_instances s k = Some r"
  shows "length (opened_for k [fst (step fac ev s)]) = (if connects_to k ev then 1 else 0)"
proof (cases ev)
  case (Connect server_name enc)
  show ?thesis
  proof (cases "session_key server_name enc = k")
    case True
    with assms sse_open_reuse [of s server_name enc r fac]
    obtain c where "fst (sse_open fac server_name enc s) = Inr c" "c_session_key c = k"
      by auto
    with Connect True show ?thesis by (simp add: step_Connect)
  next
    case False
    have "c_session_key c \<noteq> k" if "fst (sse_open fac server_name enc s) = Inr c" for c
      using sse_open_key [OF that] False by simp
    with Connect False show ?thesis
      by (auto simp: step_Connect split: sum.splits)
  qed
next
  case (Disconnect i)
  then show ?thesis by (simp add: step_Disconnect)
next
  case (Post server_name enc)
  then show ?thesis by (simp add: step_Post)
qed

lemma run_present_length:
  "user_server_instances s k = Some r \<Longrightarrow>
   length (opened_for k (fst (run fac evs s))) = length (filter (connects_to k) evs)"
proof (induction evs arbitrary: s)
  case Nil
  then show ?case by simp
next
  case (Cons ev evs)
  have st: "user_server_instances (snd (step fac ev s)) k = Some r"
    using Cons.prems by (rule step_instances_stable)
  have "opened_for k (fst (run fac (ev # evs) s)) =
      opened_for k [fst (step fac ev s)] @ opened_for k (fst (run fac evs (snd (step fac ev s))))"
    by (simp only: run_Cons fst_conv) (rule opened_for_Cons)
  with step_present_length [OF Cons.prems, of fac ev] Cons.IH [OF st] show ?case by simp
qed

lemma sse_open_builds:
  assumes "user_server_instances s (session_key server_name enc) = None"
    and "fac (fst (parse_session enc)) (snd (parse_session enc)) = Inr obj"
  shows "fst (sse_open fac server_name enc s)
           = Inr \<lparr> c_session_key = session_key server_name enc,
                   c_transport = \<lparr> t_ref = allocated s,
                      t_endpoint = ''/'' @ server_name @ ''/'' @ enc @ ''/messages/'' \<rparr>,
                   c_instance = Suc (allocated s) \<rparr>"
    and "user_server_instances (snd (sse_open fac server_name enc s)) (session_key server_name enc)
           = Some (Suc (allocated s))"
    and "objects (snd (sse_open fac server_name enc s)) (Suc (allocated s)) = Some obj"
    and "allocated (snd (sse_open fac server_name enc s)) = Suc (Suc (allocated s))"
    and "factory_calls (snd (sse_open fac server_name enc s))
           = factory_calls s @ [session_key server_name enc]"
  using assms by (simp_all add: sse_open_def Let_def)

lemma sse_open_fails:
  assumes "user_server_instances s (session_key server_name enc) = None"
    and "fac (fst (parse_session enc)) (snd (parse_session enc)) = Inl e"
  shows "fst (sse_open fac server_name enc s) = Inl e"
    and "user_server_instances (snd (sse_open fac server_name enc s)) = user_server_instances s"
    and "objects (snd (sse_open fac server_name enc s)) = objects s"
    and "factory_calls (snd (sse_open fac server_name enc s))
           = factory_calls s @ [session_key server_name enc]"
  using assms by (simp_all add: sse_open_def Let_def)

text \<open>
  Claim C1, as the router implements it.  Take a state in which the key of a connection
  request has no instance.  If the factory returns an object for the request, then after
  the request and any schedule of further requests, disconnects and posts: the factory has
  been invoked for the key exactly once, the key maps to the one new reference, the object
  stored under it is the object the factory returned, and every request for the key in the
  schedule got a connection bound to that reference.  If the factory raises, the request
  fails, nothing is stored, and the key stays absent (so the next request for it invokes
  the factory again).  In both cases an entry of the store, once made, is never replaced.
\<close>

theorem single_construction_per_key:
  assumes absent: "user_server_instances s (session_key server_name enc) = None"
  shows "(fac (fst (parse_session enc)) (snd (parse_session enc)) = Inr obj \<longrightarrow>
            count_list (factory_calls (snd (run fac (Connect server_name enc # evs) s)))
                (session_key server_name enc)
              = Suc (count_list (factory_calls s) (session_key server_name enc))
          \<and> user_server_instances (snd (run fac (Connect server_name enc # evs) s))
                (session_key server_name enc) = Some (Suc (allocated s))
          \<and> objects (snd (run fac (Connect server_name enc # evs) s)) (Suc (allocated s))
              = Some obj
          \<and> length (opened_for (session_key server_name enc)
                (fst (run fac (Connect server_name enc # evs) s)))
              = Suc (length (filter (connects_to (session_key server_name enc)) evs))
          \<and> (\<forall>c \<in> set (opened_for (session_key server_name enc)
                (fst (run fac (Connect server_name enc # evs) s))).
                c_instance c = Suc (allocated s)))
       \<and> (fac (fst (parse_session enc)) (snd (parse_session enc)) = Inl e \<longrightarrow>
            fst (step fac (Connect server_name enc) s) = Failed e
          \<and> user_server_instances (snd (step fac (Connect server_name enc) s))
                (session_key server_name enc) = None
          \<and> objects (snd (step fac (Connect server_name enc) s)) = objects s
          \<and> factory_calls (snd (step fac (Connect server_name enc) s))
              = factory_calls s @ [session_key server_name enc])
       \<and> (\<forall>k r. user_server_instances s k = Some r
            \<longrightarrow> user_server_instances (snd (run fac evs s)) k = Some r)"
proof (intro conjI impI allI)
  let ?k = "session_key server_name enc"
  let ?s1 = "snd (sse_open fac server_name enc s)"
  let ?r = "Suc (allocated s)"
  assume built: "fac (fst (parse_session enc)) (snd (parse_session enc)) = Inr obj"
  note b = sse_open_builds [of s server_name enc fac obj, OF absent built]
  have first: "fst (step fac (Connect server_name enc) s) = Opened
      \<lparr> c_session_key = ?k,
        c_transport = \<lparr> t_ref = allocated s,
                        t_endpoint = ''/'' @ server_name @ ''/'' @ enc @ ''/messages/'' \<rparr>,
        c_instance = ?r \<rparr>"
    and state: "snd (step fac (Connect server_name enc) s) = ?s1"
    by (simp_all add: step_Connect b(1))
  have final: "snd (run fac (Connect server_name enc # evs) s) = snd (run fac evs ?s1)"
    by (simp only: run_Cons snd_conv state)
  have outs: "opened_for ?k (fst (run fac (Connect server_name enc # evs) s))
      = \<lparr> c_session_key = ?k,
          c_transport = \<lparr> t_ref = allocated s,
                          t_endpoint = ''/'' @ server_name @ ''/'' @ enc @ ''/messages/'' \<rparr>,
          c_instance = ?r \<rparr> # opened_for ?k (fst (run fac evs ?s1))"
    by (simp only: run_Cons fst_conv state first) simp
  note p = run_present [OF b(2), of fac evs]
  show "count_list (factory_calls (snd (run fac (Connect server_name enc # evs) s))) ?k
      = Suc (count_list (factory_calls s) ?k)"
    using p b(5) unfolding final by simp
  show "user_server_instances (snd (run fac (Connect server_name enc # evs) s)) ?k = Some ?r"
    using run_instances_stable [OF b(2), of fac evs] unfolding final by simp
  have "?r < allocated ?s1" by (simp add: b(4))
  from run_objects_stable [OF this, of fac evs] b(3)
  show "objects (snd (run fac (Connect server_name enc # evs) s)) ?r = Some obj"
    unfolding final by simp
  show "length (opened_for ?k (fst (run fac (Connect server_name enc # evs) s)))
      = Suc (length (filter (connects_to ?k) evs))"
    using run_present_length [OF b(2), of fac evs] unfolding outs by simp
  show "\<forall>c \<in> set (opened_for ?k (fst (run fac (Connect server_name enc # evs) s))).
      c_instance c = ?r"
    using p unfolding outs by auto
next
  assume failed: "fac (fst (parse_session enc)) (snd (parse_session enc)) = Inl e"
  note f = sse_open_fails [of s server_name enc fac e, OF absent failed]
  show "fst (step fac (Connect server_name enc) s) = Failed e"
    by (simp add: step_Connect f(1))
  show "user_server_instances (snd (step fac (Connect server_name enc) s))
      (session_key server_name enc) = None"
    by (simp add: step_Connect f(2) absent)
  show "objects (snd (step fac (Connect server_name enc) s)) = objects s"
    by (simp add: step_Connect f(3))
  show "factory_calls (snd (step fac (Connect server_name enc) s))
      = factory_calls s @ [session_key server_name enc]"
    by (simp add: step_Connect f(4))
next
  fix k r
  assume "user_server_instances s k = Some r"
  then show "user_server_instances (snd (run fac evs s)) k = Some r"
    by (rule run_instances_stable)
qed

theorem single_construction_per_key_witness:
  "user_server_instances (init_app :: server app) (session_key ''discord'' ''alice'') = None
   \<and> discord_server (fst (parse_session ''alice'')) (snd (parse_session ''alice''))
       = Inr (create_server ''alice'' None)
   \<and> factory_calls (snd (run discord_server
        [Connect ''discord'' ''alice'', Connect ''discord'' ''bob'', Connect ''discord'' ''alice'',
         Disconnect 0, Connect ''discord'' ''alice''] init_app))
       = [''discord:alice'', ''discord:bob'']
   \<and> map c_instance (opened_for ''discord:alice'' (fst (run discord_server
        [Connect ''discord'' ''alice'', Connect ''discord'' ''bob'', Connect ''discord'' ''alice'',
         Disconnect 0, Connect ''discord'' ''alice''] init_app))) = [1, 1, 1]
   \<and> user_server_instances (snd (run discord_server
        [Connect ''discord'' ''alice'', Connect ''discord'' ''bob'', Connect ''discord'' ''alice'',
         Disconnect 0, Connect ''discord'' ''alice''] init_app)) ''discord:alice'' = Some 1
   \<and> objects (snd (run discord_server
        [Connect ''discord'' ''alice'', Connect ''discord'' ''bob'', Connect ''discord'' ''alice'',
         Disconnect 0, Connect ''discord'' ''alice''] init_app)) 1
       = Some (create_server ''alice'' None)
   \<and> fst (step (\<lambda>u a. Inl (ValueError ''no such user'')) (Connect ''discord'' ''alice'')
        (init_app :: server app)) = Failed (ValueError ''no such user'')
   \<and> user_server_instances (snd (step (\<lambda>u a. Inl (ValueError ''no such user''))
        (Connect ''discord'' ''alice'') (init_app :: server app))) ''discord:alice'' = None"
  using single_construction_per_key [of "init_app :: server app" "''discord''" "''alice''"
        discord_server "create_server ''alice'' None"
        "[Connect ''discord'' ''bob'', Connect ''discord'' ''alice'',
          Disconnect 0, Connect ''discord'' ''alice'']" "ValueError []"]
    single_construction_per_key [of "init_app :: server app" "''discord''" "''alice''"
        "\<lambda>u a. Inl (ValueError ''no such user'')" "create_server ''alice'' None"
        "[]" "ValueError ''no such user''"]
  by (simp add: step_def sse_open_def sse_close_def init_app_def session_key_def
        discord_server_def parse_session_def Let_def)

text \<open>
  The claim as the specification states it (the construction function is invoked exactly
  once for N requests) fails when the function raises: three requests for one key invoke
  it three times, none gets an instance, and the key is still absent.
\<close>

theorem failing_factory_invoked_per_request:
  "run (\<lambda>u a. Inl (ValueError ''no such user''))
      [Connect ''discord'' ''alice'', Connect ''discord'' ''alice'', Connect ''discord'' ''alice'']
      (init_app :: server app)
     = ([Failed (ValueError ''no such user''), Failed (ValueError ''no such user''),
         Failed (ValueError ''no such user'')],
        snd (run (\<lambda>u a. Inl (ValueError ''no such user''))
          [Connect ''discord'' ''alice'', Connect ''discord'' ''alice'', Connect ''discord'' ''alice'']
          (init_app :: server app)))
   \<and> factory_calls (snd (run (\<lambda>u a. Inl (ValueError ''no such user''))
        [Connect ''discord'' ''alice'', Connect ''discord'' ''alice'', Connect ''discord'' ''alice'']
        (init_app :: server app)))
     = [''discord:alice'', ''discord:alice'', ''discord:alice'']
   \<and> user_server_instances (snd (run (\<lambda>u a. Inl (ValueError ''no such user''))
        [Connect ''discord'' ''alice'', Connect ''discord'' ''alice'', Connect ''discord'' ''alice'']
        (init_app :: server app))) ''discord:alice'' = None"
  by (simp add: step_def sse_open_def init_app_def session_key_def Let_def)

text \<open>
  Claim C2, as the router implements it.  The router has no rejection path: when a key
  already has an instance, an attached transport and a streaming connection, a further
  connection request for the key is accepted.  The new connection is bound to the same
  instance, its fresh transport replaces the stored one, and the earlier connection keeps
  streaming beside it.
\<close>

theorem second_connection_accepted:
  assumes bound: "user_server_instances s (session_key server_name enc) = Some r"
    and attached: "user_session_transports s (session_key server_name enc) = Some t"
    and streaming: "c0 \<in> set (open_connections s)" "c_instance c0 = r"
  shows "\<exists>c. fst (sse_open fac server_name enc s) = Inr c
           \<and> c_instance c = r
           \<and> t_ref (c_transport c) = allocated s
           \<and> user_session_transports (snd (sse_open fac server_name enc s))
                (session_key server_name enc) = Some (c_transport c)
           \<and> open_connections (snd (sse_open fac server_name enc s)) = open_connections s @ [c]
           \<and> c0 \<in> set (open_connections (snd (sse_open fac server_name enc s)))"
  using sse_open_reuse [OF bound, of fac] streaming by auto

theorem second_connection_accepted_witness:
  "user_server_instances (snd (sse_open discord_server ''discord'' ''alice'' init_app))
      (session_key ''discord'' ''alice'') = Some 1
   \<and> user_session_transports (snd (sse_open discord_server ''discord'' ''alice'' init_app))
      (session_key ''discord'' ''alice'') = Some \<lparr>t_ref = 0, t_endpoint = ''/discord/alice/messages/''\<rparr>
   \<and> \<lparr>c_session_key = ''discord:alice'',
       c_transport = \<lparr>t_ref = 0, t_endpoint = ''/discord/alice/messages/''\<rparr>, c_instance = 1\<rparr>
       \<in> set (open_connections (snd (sse_open discord_server ''discord'' ''alice'' init_app)))
   \<and> (\<exists>c. fst (sse_open discord_server ''discord'' ''alice''
                  (snd (sse_open discord_server ''discord'' ''alice'' init_app))) = Inr c
          \<and> c_instance c = 1 \<and> t_ref (c_transport c) = 2)"
  using second_connection_accepted [of "snd (sse_open discord_server ''discord'' ''alice'' init_app)"
      "''discord''" "''alice''" 1 "\<lparr>t_ref = 0, t_endpoint = ''/discord/alice/messages/''\<rparr>"
      "\<lparr>c_session_key = ''discord:alice'',
        c_transport = \<lparr>t_ref = 0, t_endpoint = ''/discord/alice/messages/''\<rparr>, c_instance = 1\<rparr>"
      discord_server]
  by (simp add: sse_open_def init_app_def session_key_def discord_server_def Let_def)

text \<open>
  The claim as the specification states it (the second connection is rejected, so that at
  most one transport is attached to an instance) fails: two requests for the same key are
  both opened, and both streaming connections drive instance 1.
\<close>

theorem second_connection_not_rejected:
  "fst (run discord_server [Connect ''discord'' ''alice'', Connect ''discord'' ''alice''] init_app)
     = [Opened \<lparr>c_session_key = ''discord:alice'',
                c_transport = \<lparr>t_ref = 0, t_endpoint = ''/discord/alice/messages/''\<rparr>,
                c_instance = 1\<rparr>,
        Opened \<lparr>c_session_key = ''discord:alice'',
                c_transport = \<lparr>t_ref = 2, t_endpoint = ''/discord/alice/messages/''\<rparr>,
                c_instance = 1\<rparr>]
   \<and> map c_instance (open_connections (snd (run discord_server
        [Connect ''discord'' ''alice'', Connect ''discord'' ''alice''] init_app))) = [1, 1]
   \<and> map t_ref (map c_transport (open_connections (snd (run discord_server
        [Connect ''discord'' ''alice'', Connect ''discord'' ''alice''] init_app)))) = [0, 2]"
  by (simp add: step_def sse_open_def init_app_def session_key_def discord_server_def Let_def)

text \<open>
  Claim C4, the part the router implements.  When \<^verbatim>\<open>server_factory\<close> raises for a key with
  no instance, the exception leaves \<^verbatim>\<open>handle_sse\<close> and nothing is stored in
  \<^verbatim>\<open>user_server_instances\<close>; a later request for the key whose factory call succeeds
  stores and binds a new instance.
\<close>

theorem failed_factory_leaves_key_absent:
  assumes absent: "user_server_instances s (session_key server_name enc) = None"
    and fails: "fac (fst (parse_session enc)) (snd (parse_session enc)) = Inl err"
    and later: "fac' (fst (parse_session enc)) (snd (parse_session enc)) = Inr obj"
  shows "fst (sse_open fac server_name enc s) = Inl err
       \<and> user_server_instances (snd (sse_open fac server_name enc s)) = user_server_instances s
       \<and> objects (snd (sse_open fac server_name enc s)) = objects s
       \<and> (\<exists>c. fst (sse_open fac' server_name enc (snd (sse_open fac server_name enc s))) = Inr c
              \<and> user_server_instances
                   (snd (sse_open fac' server_name enc (snd (sse_open fac server_name enc s))))
                   (session_key server_name enc) = Some (c_instance c)
              \<and> objects
                   (snd (sse_open fac' server_name enc (snd (sse_open fac server_name enc s))))
                   (c_instance c) = Some obj
              \<and> objects s (c_instance c) = objects (snd (sse_open fac server_name enc s)) (c_instance c))"
  using assms by (simp add: sse_open_def Let_def)

theorem failed_factory_leaves_key_absent_witness:
  "user_server_instances (init_app :: server app) (session_key ''discord'' ''alice'') = None
   \<and> (\<lambda>u a. Inl (ValueError ''no credentials'') :: error + server)
        (fst (parse_session ''alice'')) (snd (parse_session ''alice'')) = Inl (ValueError ''no credentials'')
   \<and> discord_server (fst (parse_session ''alice'')) (snd (parse_session ''alice''))
        = Inr (create_server ''alice'' None)
   \<and> fst (sse_open (\<lambda>u a. Inl (ValueError ''no credentials'')) ''discord'' ''alice''
        (init_app :: server app)) = Inl (ValueError ''no credentials'')
   \<and> user_server_instances (snd (sse_open (\<lambda>u a. Inl (ValueError ''no credentials'')) ''discord'' ''alice''
        (init_app :: server app))) (session_key ''discord'' ''alice'') = None"
  using failed_factory_leaves_key_absent [of "init_app :: server app" "''discord''" "''alice''"
      "\<lambda>u a. Inl (ValueError ''no credentials'')" "ValueError ''no credentials''"
      discord_server "create_server ''alice'' None"]
  by (simp add: init_app_def session_key_def discord_server_def parse_session_def)

section \<open>Properties of the Discord adapter\<close>

subsection \<open>Strings and resource URIs\<close>

lemma digit_char_cases:
  "d < 10 \<Longrightarrow> digit_char d \<in> set ''0123456789''"
  unfolding digit_char_def by (rule nth_mem) simp

lemma str_nat_digits: "set (str_nat n) \<subseteq> set ''0123456789''"
proof (induction n rule: str_nat.induct)
  case (1 n)
  show ?case
  proof (cases "n < 10")
    case True
    then show ?thesis
      using digit_char_cases [of n] by (subst str_nat.simps) simp
  next
    case False
    have "n mod 10 < 10" by simp
    from digit_char_cases [OF this] 1 [OF False] False show ?thesis
      by (subst str_nat.simps) simp
  qed
qed

lemma str_nat_nonempty: "str_nat n \<noteq> []"
  by (subst str_nat.simps) simp

lemma str_nat_no_slash: "CHR ''/'' \<notin> set (str_nat n)"
proof
  assume "CHR ''/'' \<in> set (str_nat n)"
  with str_nat_digits [of n] have "CHR ''/'' \<in> set ''0123456789''" by (rule subsetD)
  then show False by simp
qed

lemma str_nat_no_d: "CHR ''d'' \<notin> set (str_nat n)"
proof
  assume "CHR ''d'' \<in> set (str_nat n)"
  with str_nat_digits [of n] have "CHR ''d'' \<in> set ''0123456789''" by (rule subsetD)
  then show False by simp
qed

lemma str_nat_no_minus: "CHR ''-'' \<notin> set (str_nat n)"
proof
  assume "CHR ''-'' \<in> set (str_nat n)"
  with str_nat_digits [of n] have "CHR ''-'' \<in> set ''0123456789''" by (rule subsetD)
  then show False by simp
qed

lemma str_int_no_slash: "CHR ''/'' \<notin> set (str_int i)"
  by (simp add: str_int_def str_nat_no_slash)

lemma str_int_no_d: "CHR ''d'' \<notin> set (str_int i)"
  by (simp add: str_int_def str_nat_no_d)

lemma split_n_0: "split_n 0 c s = [s]"
  by (cases s) simp_all

lemma split_n_no_sep: "c \<notin> set s \<Longrightarrow> split_n n c s = [s]"
proof (induction s arbitrary: n)
  case Nil
  then show ?case by simp
next
  case (Cons x xs)
  then show ?case by (cases n) auto
qed

lemma split_n_first: "c \<notin> set a \<Longrightarrow> split_n (Suc 0) c (a @ c # b) = [a, b]"
  by (induction a) (auto simp: split_n_0)

lemma py_remove_Nil: "py_remove old [] = []"
  by (subst py_remove.simps) simp

lemma py_remove_skip:
  "old \<noteq> [] \<Longrightarrow> \<not> startswith (x # xs) old \<Longrightarrow> py_remove old (x # xs) = x # py_remove old xs"
  by (subst py_remove.simps) simp

lemma py_remove_prefix:
  "old \<noteq> [] \<Longrightarrow> py_remove old (old @ s) = py_remove old s"
  by (subst py_remove.simps) (simp add: startswith_def)

lemma startswith_set: "startswith s old \<Longrightarrow> set old \<subseteq> set s"
proof -
  assume "startswith s old"
  then have "old = take (length old) s" by (simp add: startswith_def)
  then have "set old = set (take (length old) s)" by simp
  then show ?thesis using set_take_subset [of "length old" s] by simp
qed

lemma py_remove_absent:
  assumes "c \<in> set old" and "c \<notin> set s"
  shows "py_remove old s = s"
  using assms(2)
proof (induction s)
  case Nil
  then show ?case by (simp add: py_remove_Nil)
next
  case (Cons x xs)
  have no: "\<not> startswith (x # xs) old"
  proof
    assume "startswith (x # xs) old"
    then have "set old \<subseteq> set (x # xs)" by (rule startswith_set)
    with assms(1) Cons.prems show False by auto
  qed
  have ne: "old \<noteq> []" using assms(1) by auto
  have "py_remove old xs = xs" using Cons by simp
  with py_remove_skip [OF ne no] show ?case by simp
qed

lemma startswith_append: "startswith (p @ s) p"
  by (simp add: startswith_def)

lemma parse_resource_uri_roundtrip:
  "parse_resource_uri (resource_uri gid cid) = Inr (str_int gid, str_int cid)"
proof -
  let ?rest = "str_int gid @ CHR ''/'' # str_int cid"
  have uri: "resource_uri gid cid = ''discord:///'' @ ?rest"
    by (simp add: resource_uri_def)
  have "CHR ''d'' \<notin> set ?rest"
    using str_int_no_d [of gid] str_int_no_d [of cid] by simp
  then have absent: "py_remove ''discord:///'' ?rest = ?rest"
    by (intro py_remove_absent [of "CHR ''d''"]) simp_all
  have "py_remove ''discord:///'' (''discord:///'' @ ?rest) = py_remove ''discord:///'' ?rest"
    by (rule py_remove_prefix) simp
  also note absent
  finally have path: "py_remove ''discord:///'' (''discord:///'' @ ?rest) = ?rest" .
  have parts: "split_n 1 CHR ''/'' ?rest = [str_int gid, str_int cid]"
    using split_n_first [OF str_int_no_slash, of gid "str_int cid"] by simp
  have sw: "startswith (''discord:///'' @ ?rest) ''discord:///''"
    by (rule startswith_append)
  show ?thesis
    unfolding uri parse_resource_uri_def
    by (simp only: sw if_True path Let_def parts) simp
qed

lemma parse_resource_uri_no_prefix:
  "\<not> startswith u ''discord:///'' \<Longrightarrow>
   parse_resource_uri u = Inl (ValueError (''Unexpected URI format: '' @ u))"
  by (simp add: parse_resource_uri_def)

lemma parse_resource_uri_one_segment:
  assumes "CHR ''/'' \<notin> set seg"
  shows "parse_resource_uri (''discord:///'' @ seg)
           = Inl (ValueError (''Invalid URI format: '' @ ''discord:///'' @ seg))"
proof -
  have absent: "py_remove ''discord:///'' seg = seg"
    using assms by (intro py_remove_absent [of "CHR ''/''"]) simp_all
  have "py_remove ''discord:///'' (''discord:///'' @ seg) = py_remove ''discord:///'' seg"
    by (rule py_remove_prefix) simp
  also note absent
  finally have path: "py_remove ''discord:///'' (''discord:///'' @ seg) = seg" .
  have parts: "split_n 1 CHR ''/'' seg = [seg]"
    using assms by (rule split_n_no_sep)
  have sw: "startswith (''discord:///'' @ seg) ''discord:///''"
    by (rule startswith_append)
  show ?thesis
    unfolding parse_resource_uri_def
    by (simp only: sw if_True path Let_def parts) simp
qed

lemma digit_char_value_all:
  "list_all (\<lambda>d. of_char (digit_char d) - (48::nat) = d) [0, 1, 2, 3, 4, 5, 6, 7, 8, 9]"
  by (simp add: digit_char_def)

lemma below_ten: "d < 10 \<Longrightarrow> d \<in> set [0, 1, 2, 3, 4, 5, 6, 7, 8, 9 :: nat]"
proof -
  assume "d < 10"
  then have "d \<in> set [0..<10]" by simp
  moreover have "[0..<10] = [0, 1, 2, 3, 4, 5, 6, 7, 8, 9 :: nat]"
    by (simp add: upt_rec)
  ultimately show ?thesis by (simp only:)
qed

lemma digit_char_value: "d < 10 \<Longrightarrow> of_char (digit_char d) - (48::nat) = d"
  using digit_char_value_all below_ten [of d] unfolding list_all_iff by blast

lemma digits_value_str_nat: "digits_value (str_nat n) = n"
proof (induction n rule: str_nat.induct)
  case (1 n)
  show ?case
  proof (cases "n < 10")
    case True
    then show ?thesis
      by (subst str_nat.simps) (simp add: digits_value_def digit_char_value)
  next
    case False
    have "n mod 10 < 10" by simp
    from 1 [OF False] False digit_char_value [OF this] show ?thesis
      by (subst str_nat.simps) (simp add: digits_value_def)
  qed
qed

lemma str_nat_inj: "str_nat m = str_nat n \<Longrightarrow> m = n"
  by (metis digits_value_str_nat)

lemma str_nat_hd: "hd (str_nat n) \<noteq> CHR ''-''"
proof -
  have "hd (str_nat n) \<in> set (str_nat n)"
    using str_nat_nonempty [of n] by (rule hd_in_set)
  with str_nat_no_minus [of n] show ?thesis by auto
qed

lemma str_int_hd: "(hd (str_int i) = CHR ''-'') = (i < 0)"
  by (simp add: str_int_def str_nat_hd)

lemma str_int_inj: "str_int i = str_int j \<Longrightarrow> i = j"
proof -
  assume eq: "str_int i = str_int j"
  then have sgn: "(i < 0) = (j < 0)"
    using str_int_hd [of i] str_int_hd [of j] by simp
  show ?thesis
  proof (cases "i < 0")
    case True
    with sgn have jn: "j < 0" by simp
    from True jn eq have "str_nat (nat (- i)) = str_nat (nat (- j))"
      by (simp add: str_int_def)
    then have "nat (- i) = nat (- j)" by (rule str_nat_inj)
    with True jn show ?thesis by simp
  next
    case False
    with sgn have jn: "\<not> j < 0" by simp
    from False jn eq have "str_nat (nat i) = str_nat (nat j)"
      by (simp add: str_int_def)
    then have "nat i = nat j" by (rule str_nat_inj)
    with False jn show ?thesis by simp
  qed
qed

subsection \<open>Tool calls\<close>

lemma await_started:
  "bot_task srv = Some tk \<Longrightarrow> await_bot_ready env now (srv, g) = ((Inr (), now), (srv, g))"
  by (simp add: await_bot_ready_def)

lemma handle_call_tool_ready:
  assumes "fst (fst (await_bot_ready env now sg)) = Inr ()"
  shows "fst (fst (handle_call_tool B env now name arguments sg))
           = dispatch_tool B (global_bot (snd (snd (await_bot_ready env now sg)))) name arguments"
proof -
  obtain r t sg' where a: "await_bot_ready env now sg = ((r, t), sg')"
    by (metis prod.collapse)
  with assms have "r = Inr ()" by simp
  with a show ?thesis by (simp add: handle_call_tool_def)
qed

lemma handle_call_tool_timeout:
  assumes "fst (fst (await_bot_ready env now sg)) = Inl e"
  shows "fst (fst (handle_call_tool B env now name arguments sg)) = Inl e"
proof -
  obtain r t sg' where a: "await_bot_ready env now sg = ((r, t), sg')"
    by (metis prod.collapse)
  with assms have "r = Inl e" by simp
  with a show ?thesis by (simp add: handle_call_tool_def)
qed

lemma handle_read_resource_ready:
  assumes "fst (fst (await_bot_ready env now sg)) = Inr ()"
  shows "fst (fst (handle_read_resource B env now u sg))
           = Inr (case parse_resource_uri u of
                   Inl e \<Rightarrow> ErrorText e
                 | Inr (gid, cid) \<Rightarrow>
                     (case global_bot (snd (snd (await_bot_ready env now sg))) of
                        None \<Rightarrow> ErrorText AttributeError
                      | Some b \<Rightarrow>
                          (case int_of_str B cid of
                             Inl e \<Rightarrow> ErrorText e
                           | Inr c \<Rightarrow> ReadChannel gid c)))"
proof -
  obtain r t sg' where a: "await_bot_ready env now sg = ((r, t), sg')"
    by (metis prod.collapse)
  with assms have "r = Inr ()" by simp
  with a show ?thesis
    by (simp add: handle_read_resource_def split: sum.splits prod.splits option.splits)
qed

lemma lacks_missing:
  "arguments = None \<or> (\<exists>d k. arguments = Some d \<and> k \<in> set ks \<and> map_of d k = None)
   \<Longrightarrow> lacks arguments ks"
  by (auto simp: lacks_def list_ex_iff)

lemma dispatch_unknown:
  "name \<notin> set (map tool_name handle_list_tools) \<Longrightarrow>
   dispatch_tool B client name arguments = Inl (ValueError (''Unknown tool: '' @ name))"
  by (simp add: handle_list_tools_def dispatch_tool_def)

lemma dispatch_missing_send_message:
  "lacks arguments [''channel_id'', ''content''] \<Longrightarrow>
   dispatch_tool B client ''send_message'' arguments = Inl (ValueError ''Missing required parameters: channel_id and content'')"
  by (simp add: dispatch_tool_def tool_send_message_def)

lemma dispatch_missing_read_messages:
  "lacks arguments [''channel_id''] \<Longrightarrow>
   dispatch_tool B client ''read_messages'' arguments = Inl (ValueError ''Missing required parameter: channel_id'')"
  by (simp add: dispatch_tool_def tool_read_messages_def)

lemma dispatch_missing_add_reaction:
  "lacks arguments [''channel_id'', ''message_id'', ''emoji''] \<Longrightarrow>
   dispatch_tool B client ''add_reaction'' arguments = Inl (ValueError ''Missing required parameters: channel_id, message_id, and emoji'')"
  by (simp add: dispatch_tool_def tool_add_reaction_def)

lemma dispatch_missing_edit_message:
  "lacks arguments [''channel_id'', ''message_id'', ''content''] \<Longrightarrow>
   dispatch_tool B client ''edit_message'' arguments = Inl (ValueError ''Missing required parameters: channel_id, message_id, and content'')"
  by (simp add: dispatch_tool_def tool_edit_message_def)

lemma dispatch_missing_delete_message:
  "lacks arguments [''channel_id'', ''message_id''] \<Longrightarrow>
   dispatch_tool B client ''delete_message'' arguments = Inl (ValueError ''Missing required parameters: channel_id and message_id'')"
  by (simp add: dispatch_tool_def tool_delete_message_def)

lemma dispatch_missing_send_embed:
  "lacks arguments [''channel_id'', ''title''] \<Longrightarrow>
   dispatch_tool B client ''send_embed'' arguments = Inl (ValueError ''Missing required parameters: channel_id and title'')"
  by (simp add: dispatch_tool_def tool_send_embed_def)

lemma dispatch_missing_get_user_info:
  "lacks arguments [''user_id''] \<Longrightarrow>
   dispatch_tool B client ''get_user_info'' arguments = Inl (ValueError ''Missing required parameter: user_id'')"
  by (simp add: dispatch_tool_def tool_get_user_info_def)

lemma dispatch_missing_send_dm:
  "lacks arguments [''user_id'', ''content''] \<Longrightarrow>
   dispatch_tool B client ''send_dm'' arguments = Inl (ValueError ''Missing required parameters: user_id and content'')"
  by (simp add: dispatch_tool_def tool_send_dm_def)

lemma dispatch_missing_ban_member:
  "lacks arguments [''guild_id'', ''user_id''] \<Longrightarrow>
   dispatch_tool B client ''ban_member'' arguments = Inl (ValueError ''Missing required parameters: guild_id and user_id'')"
  by (simp add: dispatch_tool_def tool_ban_member_def)

lemma dispatch_missing_kick_member:
  "lacks arguments [''guild_id'', ''user_id''] \<Longrightarrow>
   dispatch_tool B client ''kick_member'' arguments = Inl (ValueError ''Missing required parameters: guild_id and user_id'')"
  by (simp add: dispatch_tool_def tool_kick_member_def)

lemma dispatch_missing_mute_member:
  "lacks arguments [''guild_id'', ''user_id'', ''mute''] \<Longrightarrow>
   dispatch_tool B client ''mute_member'' arguments = Inl (ValueError ''Missing required parameters: guild_id, user_id, and mute'')"
  by (simp add: dispatch_tool_def tool_mute_member_def)

lemma dispatch_missing_assign_role:
  "lacks arguments [''guild_id'', ''user_id'', ''role_id'', ''add''] \<Longrightarrow>
   dispatch_tool B client ''assign_role'' arguments = Inl (ValueError ''Missing required parameters: guild_id, user_id, role_id, and add'')"
  by (simp add: dispatch_tool_def tool_assign_role_def)

lemma dispatch_missing_list_members:
  "lacks arguments [''guild_id''] \<Longrightarrow>
   dispatch_tool B client ''list_members'' arguments = Inl (ValueError ''Missing required parameter: guild_id'')"
  by (simp add: dispatch_tool_def tool_list_members_def)

lemma dispatch_missing_all:
  "list_all (\<lambda>t. lacks arguments (required t) \<longrightarrow>
       (\<exists>msg. dispatch_tool B client (tool_name t) arguments
                = Inl (ValueError (''Missing required parameter'' @ msg))))
     handle_list_tools"
  unfolding handle_list_tools_def
  by (simp add: dispatch_missing_send_message
      dispatch_missing_read_messages
      dispatch_missing_add_reaction
      dispatch_missing_edit_message
      dispatch_missing_delete_message
      dispatch_missing_send_embed
      dispatch_missing_get_user_info
      dispatch_missing_send_dm
      dispatch_missing_ban_member
      dispatch_missing_kick_member
      dispatch_missing_mute_member
      dispatch_missing_assign_role
      dispatch_missing_list_members)

lemma dispatch_missing:
  assumes "t \<in> set handle_list_tools"
    and "lacks arguments (required t)"
  shows "\<exists>msg. dispatch_tool B client (tool_name t) arguments
                 = Inl (ValueError (''Missing required parameter'' @ msg))"
  using assms dispatch_missing_all [of arguments B client] unfolding list_all_iff by blast

lemma call_tool_request_result:
  "fst (fst (call_tool_request B env now name arguments sg))
     = (case fst (fst (handle_call_tool B env now name
                        (Some (case arguments of None \<Rightarrow> [] | Some d \<Rightarrow> d)) sg)) of
          Inl e \<Rightarrow> ToolError e
        | Inr r \<Rightarrow> ToolContent r)"
proof -
  obtain x t sg' where a: "handle_call_tool B env now name
      (Some (case arguments of None \<Rightarrow> [] | Some d \<Rightarrow> d)) sg = ((x, t), sg')"
    by (metis prod.collapse)
  then show ?thesis
    by (cases x) (simp_all add: call_tool_request_def)
qed

lemma lacks_normalised:
  "arguments = None \<or> (\<exists>d k. arguments = Some d \<and> k \<in> set ks \<and> map_of d k = None)
   \<Longrightarrow> lacks (Some (case arguments of None \<Rightarrow> [] | Some d \<Rightarrow> d)) ks"
  by (auto simp: lacks_def list_ex_iff)

lemma dispatch_missing_same_all:
  "list_all (\<lambda>t. lacks a1 (required t) \<longrightarrow> lacks a2 (required t) \<longrightarrow>
       dispatch_tool B client (tool_name t) a1 = dispatch_tool B client (tool_name t) a2)
     handle_list_tools"
  unfolding handle_list_tools_def
  by (simp add: dispatch_missing_send_message
      dispatch_missing_read_messages
      dispatch_missing_add_reaction
      dispatch_missing_edit_message
      dispatch_missing_delete_message
      dispatch_missing_send_embed
      dispatch_missing_get_user_info
      dispatch_missing_send_dm
      dispatch_missing_ban_member
      dispatch_missing_kick_member
      dispatch_missing_mute_member
      dispatch_missing_assign_role
      dispatch_missing_list_members)

lemma dispatch_missing_same:
  assumes "t \<in> set handle_list_tools"
    and "lacks a1 (required t)" and "lacks a2 (required t)"
  shows "dispatch_tool B client (tool_name t) a1 = dispatch_tool B client (tool_name t) a2"
  using assms dispatch_missing_same_all [of a1 a2 B client] unfolding list_all_iff by blast

text \<open>
  Claim C7, as the adapter implements it.  Once a call is past the readiness prelude (the
  bot task was started earlier, or the bot signals readiness within the 30 units), the
  handler function raises \<open>ValueError\<close> "Unknown tool: ..." for a name that is not in the
  tool table, and \<open>ValueError\<close> "Missing required parameter..." for a name of the table
  called with no arguments or without a key of its \<^verbatim>\<open>required\<close> list.  When the wait of the
  prelude times out, the function raises \<open>TimeoutError\<close> before it looks at the name.  In
  every one of these cases the registered handler catches the exception: what the caller
  receives is an error result that carries it as text.
\<close>

theorem call_tool_request_errors:
  "(fst (fst (await_bot_ready env now sg)) = Inr () \<longrightarrow>
      (name \<notin> set (map tool_name handle_list_tools) \<longrightarrow>
          fst (fst (handle_call_tool B env now name arguments sg))
            = Inl (ValueError (''Unknown tool: '' @ name))
        \<and> fst (fst (call_tool_request B env now name arguments sg))
            = ToolError (ValueError (''Unknown tool: '' @ name)))
    \<and> (\<forall>t \<in> set handle_list_tools.
          (arguments = None \<or> (\<exists>d k. arguments = Some d \<and> k \<in> set (required t) \<and> map_of d k = None))
          \<longrightarrow> (\<exists>msg. fst (fst (handle_call_tool B env now (tool_name t) arguments sg))
                       = Inl (ValueError (''Missing required parameter'' @ msg))
                   \<and> fst (fst (call_tool_request B env now (tool_name t) arguments sg))
                       = ToolError (ValueError (''Missing required parameter'' @ msg)))))
   \<and> (fst (fst (await_bot_ready env now sg)) = Inl e \<longrightarrow>
        fst (fst (handle_call_tool B env now name arguments sg)) = Inl e
      \<and> fst (fst (call_tool_request B env now name arguments sg)) = ToolError e)"
proof (intro conjI impI ballI)
  assume ready: "fst (fst (await_bot_ready env now sg)) = Inr ()"
    and unknown: "name \<notin> set (map tool_name handle_list_tools)"
  have d: "dispatch_tool B client name args = Inl (ValueError (''Unknown tool: '' @ name))"
    for client args
    using unknown by (rule dispatch_unknown)
  show "fst (fst (handle_call_tool B env now name arguments sg))
      = Inl (ValueError (''Unknown tool: '' @ name))"
    unfolding handle_call_tool_ready [OF ready] by (rule d)
  show "fst (fst (call_tool_request B env now name arguments sg))
      = ToolError (ValueError (''Unknown tool: '' @ name))"
    unfolding call_tool_request_result handle_call_tool_ready [OF ready] by (simp add: d)
next
  fix t
  assume ready: "fst (fst (await_bot_ready env now sg)) = Inr ()"
    and t: "t \<in> set handle_list_tools"
    and miss: "arguments = None \<or> (\<exists>d k. arguments = Some d \<and> k \<in> set (required t) \<and> map_of d k = None)"
  let ?client = "global_bot (snd (snd (await_bot_ready env now sg)))"
  let ?norm = "Some (case arguments of None \<Rightarrow> [] | Some d \<Rightarrow> d)"
  from miss have l1: "lacks arguments (required t)" by (intro lacks_missing)
  from miss have l2: "lacks ?norm (required t)" by (rule lacks_normalised)
  from dispatch_missing [OF t l1, of B ?client]
  obtain msg where m: "dispatch_tool B ?client (tool_name t) arguments
      = Inl (ValueError (''Missing required parameter'' @ msg))" by blast
  with dispatch_missing_same [OF t l1 l2, of B ?client]
  have m2: "dispatch_tool B ?client (tool_name t) ?norm
      = Inl (ValueError (''Missing required parameter'' @ msg))" by simp
  have "fst (fst (handle_call_tool B env now (tool_name t) arguments sg))
      = Inl (ValueError (''Missing required parameter'' @ msg))"
    unfolding handle_call_tool_ready [OF ready] by (rule m)
  moreover have "fst (fst (call_tool_request B env now (tool_name t) arguments sg))
      = ToolError (ValueError (''Missing required parameter'' @ msg))"
    unfolding call_tool_request_result handle_call_tool_ready [OF ready] by (simp add: m2)
  ultimately show "\<exists>msg. fst (fst (handle_call_tool B env now (tool_name t) arguments sg))
                       = Inl (ValueError (''Missing required parameter'' @ msg))
                   \<and> fst (fst (call_tool_request B env now (tool_name t) arguments sg))
                       = ToolError (ValueError (''Missing required parameter'' @ msg))"
    by blast
next
  assume timeout: "fst (fst (await_bot_ready env now sg)) = Inl e"
  show "fst (fst (handle_call_tool B env now name arguments sg)) = Inl e"
    using timeout by (rule handle_call_tool_timeout)
  show "fst (fst (call_tool_request B env now name arguments sg)) = ToolError e"
    unfolding call_tool_request_result by (simp add: handle_call_tool_timeout [OF timeout])
qed

theorem call_tool_request_errors_witness:
  "fst (fst (await_bot_ready env_ready 0 (create_server ''alice'' None, init_module))) = Inr ()
   \<and> ''reboot'' \<notin> set (map tool_name handle_list_tools)
   \<and> fst (fst (handle_call_tool no_conversions env_ready 0 ''reboot'' None
               (create_server ''alice'' None, init_module)))
       = Inl (ValueError ''Unknown tool: reboot'')
   \<and> fst (fst (call_tool_request no_conversions env_ready 0 ''reboot'' None
               (create_server ''alice'' None, init_module)))
       = ToolError (ValueError ''Unknown tool: reboot'')
   \<and> (\<exists>msg. fst (fst (handle_call_tool no_conversions env_ready 0 ''send_message''
                       (Some [(''channel_id'', PStr ''7'')])
                       (create_server ''alice'' None, init_module)))
              = Inl (ValueError (''Missing required parameter'' @ msg))
            \<and> fst (fst (call_tool_request no_conversions env_ready 0 ''send_message''
                       (Some [(''channel_id'', PStr ''7'')])
                       (create_server ''alice'' None, init_module)))
              = ToolError (ValueError (''Missing required parameter'' @ msg)))
   \<and> fst (fst (await_bot_ready env_no_credentials 0 (create_server ''alice'' None, init_module)))
       = Inl TimeoutError
   \<and> fst (fst (call_tool_request no_conversions env_no_credentials 0 ''reboot'' None
               (create_server ''alice'' None, init_module)))
       = ToolError TimeoutError"
proof -
  have ready: "fst (fst (await_bot_ready env_ready 0 (create_server ''alice'' None, init_module))) = Inr ()"
    by (simp add: await_bot_ready_def start_bot_background_def create_discord_bot_def
        get_credentials_def env_ready_def create_server_def init_module_def SERVICE_NAME_def)
  have late: "fst (fst (await_bot_ready env_no_credentials 0
      (create_server ''alice'' None, init_module))) = Inl TimeoutError"
    by (simp add: await_bot_ready_def start_bot_background_def create_discord_bot_def
        get_credentials_def env_no_credentials_def create_server_def init_module_def
        SERVICE_NAME_def)
  have unknown: "''reboot'' \<notin> set (map tool_name handle_list_tools)"
    by (simp add: handle_list_tools_def)
  have t: "\<lparr> tool_name = ''send_message'', properties = [''channel_id'', ''content''],
             required = [''channel_id'', ''content''] \<rparr> \<in> set handle_list_tools"
    by (simp add: handle_list_tools_def)
  from call_tool_request_errors [where env = env_ready and now = 0
      and sg = "(create_server ''alice'' None, init_module)" and name = "''reboot''"
      and B = no_conversions and arguments = None and e = TimeoutError] ready unknown
  have a: "fst (fst (handle_call_tool no_conversions env_ready 0 ''reboot'' None
               (create_server ''alice'' None, init_module)))
       = Inl (ValueError ''Unknown tool: reboot'')
     \<and> fst (fst (call_tool_request no_conversions env_ready 0 ''reboot'' None
               (create_server ''alice'' None, init_module)))
       = ToolError (ValueError ''Unknown tool: reboot'')"
    by simp
  from call_tool_request_errors [where env = env_ready and now = 0
      and sg = "(create_server ''alice'' None, init_module)" and name = "''reboot''"
      and B = no_conversions and arguments = "Some [(''channel_id'', PStr ''7'')]"
      and e = TimeoutError] ready t
  have b: "\<exists>msg. fst (fst (handle_call_tool no_conversions env_ready 0 ''send_message''
                       (Some [(''channel_id'', PStr ''7'')])
                       (create_server ''alice'' None, init_module)))
              = Inl (ValueError (''Missing required parameter'' @ msg))
            \<and> fst (fst (call_tool_request no_conversions env_ready 0 ''send_message''
                       (Some [(''channel_id'', PStr ''7'')])
                       (create_server ''alice'' None, init_module)))
              = ToolError (ValueError (''Missing required parameter'' @ msg))"
    by fastforce
  from call_tool_request_errors [where env = env_no_credentials and now = 0
      and sg = "(create_server ''alice'' None, init_module)" and name = "''reboot''"
      and B = no_conversions and arguments = None and e = TimeoutError] late
  have c: "fst (fst (call_tool_request no_conversions env_no_credentials 0 ''reboot'' None
               (create_server ''alice'' None, init_module)))
       = ToolError TimeoutError"
    by simp
  from ready unknown a b late c show ?thesis by blast
qed

text \<open>
  The claim as the specification states it fails twice over.  The unknown-tool and
  missing-argument errors reach the caller as the text of a result, not as a raised fault;
  and on an adapter whose bot never becomes ready, the function raises \<open>TimeoutError\<close> and
  not the unknown-tool error.
\<close>

theorem call_tool_errors_returned_as_content:
  "fst (fst (call_tool_request no_conversions env_ready 0 ''reboot'' None
        (create_server ''alice'' None, init_module)))
     = ToolError (ValueError ''Unknown tool: reboot'')
   \<and> fst (fst (call_tool_request no_conversions env_ready 0 ''send_message''
        (Some [(''channel_id'', PStr ''7'')]) (create_server ''alice'' None, init_module)))
     = ToolError (ValueError ''Missing required parameters: channel_id and content'')
   \<and> fst (fst (handle_call_tool no_conversions env_no_credentials 0 ''reboot'' None
        (create_server ''alice'' None, init_module))) = Inl TimeoutError"
  by (simp add: call_tool_request_def handle_call_tool_def await_bot_ready_def
      start_bot_background_def create_discord_bot_def get_credentials_def env_ready_def
      env_no_credentials_def create_server_def init_module_def SERVICE_NAME_def
      dispatch_tool_def tool_send_message_def lacks_def)

subsection \<open>Clamping\<close>

lemma tool_list_members_result:
  assumes "tool_list_members B client arguments = Inr r"
  shows "\<exists>d n. arguments = Some d
           \<and> py_int B (dict_get d ''limit'' (PInt 50)) = Inr n
           \<and> r = ListMembers (arg arguments ''guild_id'') (min 1000 (max 1 n))"
  using assms
  by (cases arguments)
     (auto simp: tool_list_members_def lacks_def with_client_def Let_def
           split: if_splits sum.splits option.splits)

lemma tool_ban_member_result:
  assumes "tool_ban_member B client arguments = Inr r"
  shows "\<exists>d n. arguments = Some d
           \<and> py_int B (dict_get d ''delete_message_days'' (PInt 0)) = Inr n
           \<and> r = BanMember (arg arguments ''guild_id'') (arg arguments ''user_id'')
                   (dict_get d ''reason'' (PStr ''No reason provided'')) (min 7 (max 0 n))"
  using assms
  by (cases arguments)
     (auto simp: tool_ban_member_def lacks_def with_client_def Let_def
           split: if_splits sum.splits option.splits)

lemma handle_call_tool_result:
  assumes "fst (fst (handle_call_tool B env now name arguments sg)) = Inr r"
  shows "dispatch_tool B (global_bot (snd (snd (await_bot_ready env now sg)))) name arguments = Inr r"
proof -
  obtain x t sg' where a: "await_bot_ready env now sg = ((x, t), sg')"
    by (metis prod.collapse)
  with assms show ?thesis
    by (cases x) (simp_all add: handle_call_tool_def)
qed

lemma py_int_PInt: "py_int B (PInt i) = Inr i"
  by (simp add: py_int_def)


text \<open>The definitions a concrete run of a handler unfolds.\<close>

lemmas eval_defs = handle_call_tool_def handle_read_resource_def handle_list_resources_def
  await_bot_ready_def start_bot_background_def create_discord_bot_def get_credentials_def
  create_server_def init_module_def SERVICE_NAME_def


subsection \<open>The client handle\<close>

text \<open>
  Claim C3, as the adapter implements it.  A server instance is built without a client
  handle.  While the module has no bot, the first operation of an instance whose
  credentials resolve creates one and stores it in the module's global variable; the first
  operation of an instance whose credentials do not resolve creates none, leaves the global
  empty, records the error in its task and times out.  Once the global holds a bot it is
  never replaced: the background task of every instance that starts one, whatever its
  user, receives that same handle and creates none.  An instance that has started its task
  never starts another.
\<close>

theorem one_global_bot:
  "bot_task (create_server uid akey) = None
   \<and> (global_bot g = None \<longrightarrow> bot_task srv = None \<longrightarrow>
        get_credentials env (user_id srv) (api_key srv) = Inr token \<longrightarrow>
          global_bot (snd (snd (await_bot_ready env now (srv, g)))) = Some (bots_created g)
        \<and> bots_created (snd (snd (await_bot_ready env now (srv, g)))) = Suc (bots_created g)
        \<and> bot_task (fst (snd (await_bot_ready env now (srv, g))))
            = Some \<lparr> task_bot = Some (bots_created g), task_error = None \<rparr>)
   \<and> (global_bot g = None \<longrightarrow> bot_task srv = None \<longrightarrow>
        get_credentials env (user_id srv) (api_key srv) = Inl e \<longrightarrow>
          snd (snd (await_bot_ready env now (srv, g))) = g
        \<and> bot_task (fst (snd (await_bot_ready env now (srv, g))))
            = Some \<lparr> task_bot = None, task_error = Some e \<rparr>
        \<and> fst (await_bot_ready env now (srv, g)) = (Inl TimeoutError, now + 30))
   \<and> (global_bot g = Some b \<longrightarrow> bot_task srv = None \<longrightarrow>
          snd (snd (await_bot_ready env now (srv, g))) = g
        \<and> map_option task_bot (bot_task (fst (snd (await_bot_ready env now (srv, g)))))
            = Some (Some b))
   \<and> (bot_task srv \<noteq> None \<longrightarrow> snd (await_bot_ready env now (srv, g)) = (srv, g))
   \<and> (global_bot g = Some b \<longrightarrow>
          global_bot (snd (snd (await_bot_ready env now (srv, g)))) = Some b)"
proof (intro conjI impI)
  show "bot_task (create_server uid akey) = None"
    by (simp add: create_server_def)
next
  assume "global_bot g = None" "bot_task srv = None"
    "get_credentials env (user_id srv) (api_key srv) = Inr token"
  then show "global_bot (snd (snd (await_bot_ready env now (srv, g)))) = Some (bots_created g)"
    "bots_created (snd (snd (await_bot_ready env now (srv, g)))) = Suc (bots_created g)"
    "bot_task (fst (snd (await_bot_ready env now (srv, g))))
            = Some \<lparr> task_bot = Some (bots_created g), task_error = None \<rparr>"
    by (simp_all add: await_bot_ready_def start_bot_background_def create_discord_bot_def
        Let_def split: option.splits)
next
  assume "global_bot g = None" "bot_task srv = None"
    "get_credentials env (user_id srv) (api_key srv) = Inl e"
  then show "snd (snd (await_bot_ready env now (srv, g))) = g"
    "bot_task (fst (snd (await_bot_ready env now (srv, g))))
            = Some \<lparr> task_bot = None, task_error = Some e \<rparr>"
    "fst (await_bot_ready env now (srv, g)) = (Inl TimeoutError, now + 30)"
    by (simp_all add: await_bot_ready_def start_bot_background_def create_discord_bot_def
        Let_def split: option.splits)
next
  assume "global_bot g = Some b" "bot_task srv = None"
  then show "snd (snd (await_bot_ready env now (srv, g))) = g"
    "map_option task_bot (bot_task (fst (snd (await_bot_ready env now (srv, g)))))
            = Some (Some b)"
    by (simp_all add: await_bot_ready_def start_bot_background_def create_discord_bot_def
        Let_def split: option.splits sum.splits)
next
  assume "bot_task srv \<noteq> None"
  then show "snd (await_bot_ready env now (srv, g)) = (srv, g)"
    by (auto simp: await_bot_ready_def)
next
  assume "global_bot g = Some b"
  then show "global_bot (snd (snd (await_bot_ready env now (srv, g)))) = Some b"
    by (simp add: await_bot_ready_def start_bot_background_def create_discord_bot_def
        Let_def split: option.splits sum.splits)
qed

theorem one_global_bot_witness:
  "global_bot init_module = None
   \<and> bot_task (create_server ''alice'' None) = None
   \<and> get_credentials env_ready (user_id (create_server ''alice'' None))
        (api_key (create_server ''alice'' None)) = Inr ''token-of-alice''
   \<and> global_bot (snd (snd (await_bot_ready env_ready 0 (create_server ''alice'' None, init_module))))
        = Some 0
   \<and> get_credentials env_no_credentials (user_id (create_server ''alice'' None))
        (api_key (create_server ''alice'' None))
        = Inl (ValueError ''Credentials not found for user alice'')
   \<and> global_bot (snd (snd (await_bot_ready env_no_credentials 0
        (create_server ''alice'' None, init_module)))) = None
   \<and> bot_task (fst (snd (await_bot_ready env_no_credentials 0
        (create_server ''alice'' None, init_module))))
        = Some \<lparr> task_bot = None,
                 task_error = Some (ValueError ''Credentials not found for user alice'') \<rparr>
   \<and> global_bot \<lparr> global_bot = Some 0, bots_created = 1 \<rparr> = Some 0
   \<and> bot_task (create_server ''bob'' None) = None
   \<and> map_option task_bot (bot_task (fst (snd (await_bot_ready env_ready 5
        (create_server ''bob'' None, \<lparr> global_bot = Some 0, bots_created = 1 \<rparr>)))))
        = Some (Some 0)
   \<and> bot_task (fst (snd (await_bot_ready env_ready 5
        (create_server ''bob'' None, \<lparr> global_bot = Some 0, bots_created = 1 \<rparr>)))) \<noteq> None
   \<and> snd (await_bot_ready env_ready 9 (snd (await_bot_ready env_ready 5
        (create_server ''bob'' None, \<lparr> global_bot = Some 0, bots_created = 1 \<rparr>))))
       = snd (await_bot_ready env_ready 5
        (create_server ''bob'' None, \<lparr> global_bot = Some 0, bots_created = 1 \<rparr>))"
  using one_global_bot [where uid = "''alice''" and akey = None and g = init_module
      and srv = "create_server ''alice'' None" and env = env_ready
      and token = "''token-of-alice''" and now = 0 and b = 0 and e = TimeoutError]
    one_global_bot [where uid = "''alice''" and akey = None and g = init_module
      and srv = "create_server ''alice'' None" and env = env_no_credentials
      and token = "''token-of-alice''" and now = 0 and b = 0
      and e = "ValueError ''Credentials not found for user alice''"]
    one_global_bot [where uid = "''bob''" and akey = None
      and g = "\<lparr> global_bot = Some 0, bots_created = 1 \<rparr>"
      and srv = "create_server ''bob'' None" and env = env_ready
      and token = "''token-of-bob''" and now = 5 and b = 0 and e = TimeoutError]
  by (simp add: eval_defs env_ready_def env_no_credentials_def)

text \<open>
  The claim as the specification states it (instances of different users never share a
  client handle) fails: the tasks of the instances of two users hold the same bot, the only
  one ever created.
\<close>

theorem two_users_share_one_bot:
  "user_id (create_server ''alice'' None) \<noteq> user_id (create_server ''bob'' None)
   \<and> map_option task_bot (bot_task (fst (snd (await_bot_ready env_ready 0
        (create_server ''alice'' None, init_module))))) = Some (Some 0)
   \<and> map_option task_bot (bot_task (fst (snd (await_bot_ready env_ready 5
        (create_server ''bob'' None,
         snd (snd (await_bot_ready env_ready 0 (create_server ''alice'' None, init_module))))))))
       = Some (Some 0)
   \<and> bots_created (snd (snd (await_bot_ready env_ready 5
        (create_server ''bob'' None,
         snd (snd (await_bot_ready env_ready 0 (create_server ''alice'' None, init_module)))))))
       = 1"
  by (simp add: eval_defs env_ready_def)

text \<open>
  Claim C4 as the specification states it fails for the Discord adapter, whose factory
  does not look at credentials.  With no stored credentials the instance is stored at
  connection time; the first operation raises \<open>TimeoutError\<close> after 30 units (the
  credential error ends the background task and is only logged); the instance stays in
  the store with its task set, so a later operation, now with valid credentials, does not
  retry and fails on the missing bot; and a reconnection reuses the instance without
  calling the factory.
\<close>

theorem missing_credentials_leave_instance:
  "user_server_instances (snd (sse_open discord_server ''discord'' ''alice'' init_app))
      ''discord:alice'' = Some 1
   \<and> objects (snd (sse_open discord_server ''discord'' ''alice'' init_app)) 1
      = Some (create_server ''alice'' None)
   \<and> get_credentials env_no_credentials ''alice'' None
      = Inl (ValueError ''Credentials not found for user alice'')
   \<and> fst (handle_list_resources env_no_credentials 0 (create_server ''alice'' None, init_module))
      = (Inl TimeoutError, 30)
   \<and> bot_task (fst (snd (handle_list_resources env_no_credentials 0
        (create_server ''alice'' None, init_module))))
      = Some \<lparr> task_bot = None,
               task_error = Some (ValueError ''Credentials not found for user alice'') \<rparr>
   \<and> fst (handle_list_resources env_ready 40
        (snd (handle_list_resources env_no_credentials 0
           (create_server ''alice'' None, init_module))))
      = (Inl AttributeError, 40)
   \<and> factory_calls (snd (run discord_server
        [Connect ''discord'' ''alice'', Disconnect 0, Connect ''discord'' ''alice''] init_app))
      = [''discord:alice'']"
  by (simp add: eval_defs env_ready_def env_no_credentials_def sse_open_def sse_close_def
      step_def init_app_def session_key_def discord_server_def parse_session_def Let_def)

subsection \<open>Readiness\<close>

text \<open>
  Claim C6 on a concrete run.  The bot of this adapter needs 45 units to log in.  The
  first operation, issued at 0, starts the task, waits, and raises \<open>TimeoutError\<close> at 30
  as the claim says.  The second operation, issued at 31 and so still before readiness
  (45), finds the task started and skips the wait: it goes on at 31.  With no credentials
  at all, the second operation fails at once on the missing bot.
\<close>

theorem later_operation_does_not_wait:
  "fst (handle_list_resources env_slow_login 0 (create_server ''alice'' None, init_module))
      = (Inl TimeoutError, 30)
   \<and> bot_ready (fst (snd (handle_list_resources env_slow_login 0
        (create_server ''alice'' None, init_module)))) = Some 45
   \<and> fst (handle_call_tool no_conversions env_slow_login 31 ''send_message''
        (Some [(''channel_id'', PStr ''7''), (''content'', PStr ''hi'')])
        (snd (handle_list_resources env_slow_login 0 (create_server ''alice'' None, init_module))))
      = (Inr (SendMessage (PStr ''7'') (PStr ''hi'')), 31)
   \<and> fst (handle_call_tool no_conversions env_no_credentials 31 ''send_message''
        (Some [(''channel_id'', PStr ''7''), (''content'', PStr ''hi'')])
        (snd (handle_list_resources env_no_credentials 0 (create_server ''alice'' None, init_module))))
      = (Inl AttributeError, 31)"
  by (simp add: eval_defs no_conversions_def env_slow_login_def env_no_credentials_def
      dispatch_tool_def tool_send_message_def lacks_def with_client_def arg_def)

subsection \<open>Resource URIs, encoded and decoded\<close>

lemma resource_uri_inj:
  assumes "resource_uri gid cid = resource_uri gid' cid'"
  shows "gid = gid' \<and> cid = cid'"
proof -
  from assms have "parse_resource_uri (resource_uri gid cid) = parse_resource_uri (resource_uri gid' cid')"
    by simp
  then have "str_int gid = str_int gid'" "str_int cid = str_int cid'"
    by (simp_all add: parse_resource_uri_roundtrip)
  then show ?thesis by (simp add: str_int_inj)
qed

lemma handle_list_resources_uris:
  assumes "fst (fst (handle_list_resources env now sg)) = Inr rs"
    and "r \<in> set rs"
  shows "\<exists>gid cid. uri r = resource_uri gid cid"
proof -
  obtain x t sg' where a: "await_bot_ready env now sg = ((x, t), sg')"
    by (metis prod.collapse)
  with assms have "\<exists>(gu :: guild) (ch :: channel). r = \<lparr> uri = resource_uri (guild_id gu) (channel_id ch),
        mime_type = ''text/plain'', res_name = guild_name gu @ ''/'' @ channel_name ch \<rparr>"
    by (cases x; cases "global_bot (snd sg')") (auto simp: handle_list_resources_def, blast)
  then obtain gu :: guild and ch :: channel where "r = \<lparr> uri = resource_uri (guild_id gu) (channel_id ch),
        mime_type = ''text/plain'', res_name = guild_name gu @ ''/'' @ channel_name ch \<rparr>"
    by blast
  then have "uri r = resource_uri (guild_id gu) (channel_id ch)" by simp
  then show ?thesis by blast
qed

text \<open>
  Claim C8, with the proviso that the call gets past the readiness prelude.  A URI encoded
  from a guild and a channel identifier decodes to the decimal strings of exactly those
  identifiers, and different pairs give different URIs; every URI that
  \<^verbatim>\<open>handle_list_resources\<close> returns is of that form.  Given a bot, and a builtin \<^verbatim>\<open>int\<close> that
  inverts \<^verbatim>\<open>str\<close> on the channel identifier, \<^verbatim>\<open>handle_read_resource\<close> reads that channel.
  A URI without the prefix, or with no second path segment after it, yields the text
  "Error reading resource: ..." and no exception.
\<close>

theorem resource_uri_roundtrip:
  "parse_resource_uri (resource_uri gid cid) = Inr (str_int gid, str_int cid)
   \<and> (resource_uri gid cid = resource_uri gid' cid' \<longrightarrow> gid = gid' \<and> cid = cid')
   \<and> (fst (fst (handle_list_resources env now sg)) = Inr rs \<longrightarrow>
        (\<forall>r \<in> set rs. \<exists>g c. uri r = resource_uri g c
             \<and> parse_resource_uri (uri r) = Inr (str_int g, str_int c)))
   \<and> (fst (fst (await_bot_ready env now sg)) = Inr () \<longrightarrow>
        (global_bot (snd (snd (await_bot_ready env now sg))) \<noteq> None \<longrightarrow>
         int_of_str B (str_int cid) = Inr cid \<longrightarrow>
           fst (fst (handle_read_resource B env now (resource_uri gid cid) sg))
             = Inr (ReadChannel (str_int gid) cid))
      \<and> (\<not> startswith u ''discord:///'' \<or> (\<exists>seg. u = ''discord:///'' @ seg \<and> CHR ''/'' \<notin> set seg) \<longrightarrow>
           (\<exists>msg. fst (fst (handle_read_resource B env now u sg))
                    = Inr (ErrorText (ValueError msg)))))"
proof (intro conjI impI ballI)
  show "parse_resource_uri (resource_uri gid cid) = Inr (str_int gid, str_int cid)"
    by (rule parse_resource_uri_roundtrip)
next
  assume "resource_uri gid cid = resource_uri gid' cid'"
  then show "gid = gid'" "cid = cid'"
    using resource_uri_inj by blast+
next
  fix r
  assume "fst (fst (handle_list_resources env now sg)) = Inr rs" "r \<in> set rs"
  then obtain g c where "uri r = resource_uri g c"
    using handle_list_resources_uris by blast
  then show "\<exists>g c. uri r = resource_uri g c
             \<and> parse_resource_uri (uri r) = Inr (str_int g, str_int c)"
    using parse_resource_uri_roundtrip by auto
next
  assume ready: "fst (fst (await_bot_ready env now sg)) = Inr ()"
    and "global_bot (snd (snd (await_bot_ready env now sg))) \<noteq> None"
    and "int_of_str B (str_int cid) = Inr cid"
  then show "fst (fst (handle_read_resource B env now (resource_uri gid cid) sg))
             = Inr (ReadChannel (str_int gid) cid)"
    by (auto simp: handle_read_resource_ready [OF ready] parse_resource_uri_roundtrip)
next
  assume ready: "fst (fst (await_bot_ready env now sg)) = Inr ()"
    and bad: "\<not> startswith u ''discord:///'' \<or> (\<exists>seg. u = ''discord:///'' @ seg \<and> CHR ''/'' \<notin> set seg)"
  from bad have "\<exists>msg. parse_resource_uri u = Inl (ValueError msg)"
  proof
    assume "\<not> startswith u ''discord:///''"
    then show ?thesis by (simp add: parse_resource_uri_no_prefix)
  next
    assume "\<exists>seg. u = ''discord:///'' @ seg \<and> CHR ''/'' \<notin> set seg"
    then obtain seg where "u = ''discord:///'' @ seg" "CHR ''/'' \<notin> set seg" by blast
    then show ?thesis using parse_resource_uri_one_segment [of seg] by blast
  qed
  then obtain msg where "parse_resource_uri u = Inl (ValueError msg)" by blast
  then show "\<exists>msg. fst (fst (handle_read_resource B env now u sg))
                    = Inr (ErrorText (ValueError msg))"
    by (simp add: handle_read_resource_ready [OF ready])
qed

theorem resource_uri_roundtrip_witness:
  "fst (fst (handle_list_resources env_ready 0 (create_server ''alice'' None, init_module)))
      = Inr [\<lparr> uri = ''discord:///12/345'', mime_type = ''text/plain'', res_name = ''lab/general'' \<rparr>]
   \<and> parse_resource_uri ''discord:///12/345'' = Inr (''12'', ''345'')
   \<and> fst (fst (await_bot_ready env_ready 0 (create_server ''alice'' None, init_module))) = Inr ()
   \<and> \<not> startswith ''http://example/1'' ''discord:///''
   \<and> fst (fst (handle_read_resource no_conversions env_ready 0 ''http://example/1''
        (create_server ''alice'' None, init_module)))
      = Inr (ErrorText (ValueError ''Unexpected URI format: http://example/1''))
   \<and> fst (fst (handle_read_resource no_conversions env_ready 0 ''discord:///12''
        (create_server ''alice'' None, init_module)))
      = Inr (ErrorText (ValueError ''Invalid URI format: discord:///12''))"
  using resource_uri_roundtrip [of 12 345 12 345 env_ready 0
      "(create_server ''alice'' None, init_module)"
      "[\<lparr> uri = ''discord:///12/345'', mime_type = ''text/plain'', res_name = ''lab/general'' \<rparr>]"
      no_conversions "''http://example/1''"]
  by (simp add: eval_defs no_conversions_def env_ready_def parse_resource_uri_def
      startswith_def py_remove.simps Let_def resource_uri_def str_int_def str_nat.simps digit_char_def)

text \<open>
  Without the proviso the claim fails: on an adapter whose bot never becomes ready, the
  first \<^verbatim>\<open>handle_read_resource\<close> raises \<open>TimeoutError\<close> for a malformed URI as for any other.
\<close>

theorem read_resource_timeout_raises:
  "\<not> startswith ''http://example/1'' ''discord:///''
   \<and> fst (fst (handle_read_resource no_conversions env_no_credentials 0 ''http://example/1''
        (create_server ''alice'' None, init_module))) = Inl TimeoutError"
  by (simp add: eval_defs no_conversions_def env_no_credentials_def startswith_def)

end
